theory Spec2Isabelle
  imports Main "HOL-Library.Word" "HOL-Library.Sublist"
begin

unbundle bit_operations_syntax

section \<open>Byte buffers\<close>

text \<open>
  A Node \<open>Buffer\<close> is a fixed-length array of bytes. Reading an index outside the buffer gives
  \<open>undefined\<close>, which the operator \<open>^\<close> coerces to 0; storing to an index outside the buffer is
  ignored (a typed array never grows).
\<close>

type_synonym byte = "8 word"
type_synonym buffer = "byte list"

definition byteAt :: "buffer \<Rightarrow> nat \<Rightarrow> byte" where
  "byteAt b i = (if i < length b then b ! i else 0)"

definition storeByte :: "buffer \<Rightarrow> nat \<Rightarrow> byte \<Rightarrow> buffer" where
  "storeByte b j v = (if j < length b then b[j := v] else b)"

text \<open>\<open>Buffer.alloc(n)\<close>: a zero-filled buffer.\<close>

definition alloc :: "nat \<Rightarrow> buffer" where
  "alloc n = replicate n 0"

section \<open>The masking codec (buffer module)\<close>

text \<open>
  The key byte of position \<open>i\<close>: \<open>mask[pad ? Math.floor(i % mask.length) : i & 3]\<close>. With an
  empty key in padded mode the index is \<open>NaN\<close> and the read is \<open>undefined\<close>, that is 0 under
  \<open>^\<close>.
\<close>

definition keyByte :: "buffer \<Rightarrow> bool \<Rightarrow> nat \<Rightarrow> byte" where
  "keyByte key pad i =
     (if pad then (if length key = 0 then 0 else byteAt key (i mod length key))
      else byteAt key (i AND 3))"

text \<open>
  The loop of \<open>_mask\<close>, from the loop counter \<open>i\<close> on:
  \<^verbatim>\<open>for (let i = 0; i < length; i++) output[offset + i] = source[i] ^ mask[...]\<close>.
  The offset and the length are array indices, natural numbers. Here the three buffers are
  values, that is, they share no memory, as when the output is a fresh \<open>Buffer.alloc\<close>; the
  loop on buffers that may share memory follows in the next section.
\<close>

function mask_loop ::
  "buffer \<Rightarrow> buffer \<Rightarrow> bool \<Rightarrow> nat \<Rightarrow> nat \<Rightarrow> nat \<Rightarrow> buffer \<Rightarrow> buffer" where
  "mask_loop source key pad offset len i out =
     (if i < len
      then mask_loop source key pad offset len (Suc i)
             (storeByte out (offset + i) (byteAt source i XOR keyByte key pad i))
      else out)"
  by pat_completeness auto
termination
  by (relation "measure (\<lambda>(source, key, pad, offset, len, i, out). len - i)") auto

declare mask_loop.simps [simp del]

text \<open>\<open>_mask\<close>, exported as \<open>unsafeMask\<close>. The result is the output buffer after the call.\<close>

definition unsafeMask :: "buffer \<Rightarrow> buffer \<Rightarrow> buffer \<Rightarrow> nat \<Rightarrow> nat \<Rightarrow> bool \<Rightarrow> buffer" where
  "unsafeMask source key out offset len pad = mask_loop source key pad offset len 0 out"

text \<open>
  The loop of \<open>_unmask\<close>:
  \<^verbatim>\<open>for (let i = 0; i < buffer.length; i++) buffer[i] ^= mask[...]\<close>.
\<close>

function unmask_loop :: "buffer \<Rightarrow> bool \<Rightarrow> nat \<Rightarrow> buffer \<Rightarrow> buffer" where
  "unmask_loop key pad i buffer =
     (if i < length buffer
      then unmask_loop key pad (Suc i) (buffer[i := (buffer ! i) XOR keyByte key pad i])
      else buffer)"
  by pat_completeness auto
termination
  by (relation "measure (\<lambda>(key, pad, i, buffer). length buffer - i)") auto

declare unmask_loop.simps [simp del]

text \<open>\<open>_unmask\<close>, exported as \<open>unsafeUnmask\<close>. The result is the buffer after the in-place update.\<close>

definition unsafeUnmask :: "buffer \<Rightarrow> buffer \<Rightarrow> bool \<Rightarrow> buffer" where
  "unsafeUnmask buffer key pad = unmask_loop key pad 0 buffer"

text \<open>
  The options object of \<open>mask\<close> and \<open>unmask\<close>; both fields are optional (\<open>None\<close> is
  \<open>undefined\<close>).
\<close>

record maskOptions =
  avoidBufferUtils :: "bool option"
  pad :: "bool option"

text \<open>
  The optional accelerated backend, the module that \<open>require('bufferutil')\<close> returns. It is
  not part of the repository, so it is a parameter of the model: two functions that return the
  buffer they wrote, or \<open>None\<close> when they throw. Neither receives the \<open>pad\<close> option: the calls
  are \<open>bufferUtil.mask(source, mask, output, offset, length)\<close> and
  \<open>bufferUtil.unmask(buffer, mask)\<close>.
\<close>

record bufferUtil =
  bu_mask :: "buffer \<Rightarrow> buffer \<Rightarrow> buffer \<Rightarrow> nat \<Rightarrow> nat \<Rightarrow> buffer option"
  bu_unmask :: "buffer \<Rightarrow> buffer \<Rightarrow> buffer option"

text \<open>
  What the codec reads from the process: the environment variable \<open>NO_BUFFER_UTILS\<close> and
  whether the backend can be loaded (\<open>None\<close>: \<open>require\<close> throws).
\<close>

record runtime =
  NO_BUFFER_UTILS :: "string option"
  bufferutil :: "bufferUtil option"

definition plainRuntime :: runtime where
  "plainRuntime = \<lparr>NO_BUFFER_UTILS = None, bufferutil = None\<rparr>"

text \<open>
  The first two statements of \<open>mask\<close> and \<open>unmask\<close>: \<open>options ??= {}\<close>, then
  \<open>avoidBufferUtils\<close> is set to \<open>true\<close> unless it is a boolean.
\<close>

definition normalizeOptions :: "maskOptions option \<Rightarrow> maskOptions" where
  "normalizeOptions options =
     (let opts = (case options of None \<Rightarrow> \<lparr>avoidBufferUtils = None, pad = None\<rparr> | Some o' \<Rightarrow> o')
      in if avoidBufferUtils opts = None then opts\<lparr>avoidBufferUtils := Some True\<rparr> else opts)"

text \<open>The exported \<open>mask\<close> (imported as \<open>maskBuffer\<close> by the binary I/O module).\<close>

definition maskBuffer ::
  "runtime \<Rightarrow> buffer \<Rightarrow> buffer \<Rightarrow> buffer \<Rightarrow> nat \<Rightarrow> nat \<Rightarrow> maskOptions option \<Rightarrow> buffer" where
  "maskBuffer rt source key out offset len options =
     (let opts = normalizeOptions options;
          p = (pad opts = Some True)
      in if NO_BUFFER_UTILS rt = Some ''1'' \<or> avoidBufferUtils opts = Some True
         then unsafeMask source key out offset len p
         else if len < 48 then unsafeMask source key out offset len p
         else (case bufferutil rt of
                 None \<Rightarrow> unsafeMask source key out offset len p
               | Some bu \<Rightarrow>
                   (case bu_mask bu source key out offset len of
                      Some r \<Rightarrow> r
                    | None \<Rightarrow> unsafeMask source key out offset len p)))"

text \<open>The exported \<open>unmask\<close> (imported as \<open>unmaskBuffer\<close>).\<close>

definition unmaskBuffer :: "runtime \<Rightarrow> buffer \<Rightarrow> buffer \<Rightarrow> maskOptions option \<Rightarrow> buffer" where
  "unmaskBuffer rt buffer key options =
     (let opts = normalizeOptions options;
          p = (pad opts = Some True)
      in if NO_BUFFER_UTILS rt = Some ''1'' \<or> avoidBufferUtils opts = Some True
         then unsafeUnmask buffer key p
         else if length buffer < 32 then unsafeUnmask buffer key p
         else (case bufferutil rt of
                 None \<Rightarrow> unsafeUnmask buffer key p
               | Some bu \<Rightarrow>
                   (case bu_unmask bu buffer key of
                      Some r \<Rightarrow> r
                    | None \<Rightarrow> unsafeUnmask buffer key p)))"

text \<open>
  The \<open>bufferutil\<close> package masks WebSocket frames: its \<open>mask\<close> and \<open>unmask\<close> are the loops
  above with the four-byte key index \<open>i & 3\<close>, and they never throw on buffers.
\<close>

definition bufferutilPackage :: bufferUtil where
  "bufferutilPackage =
     \<lparr>bu_mask = (\<lambda>source key out offset len. Some (unsafeMask source key out offset len False)),
      bu_unmask = (\<lambda>buffer key. Some (unsafeUnmask buffer key False))\<rparr>"

text \<open>The options every binary I/O primitive passes: \<open>{ avoidBufferUtils: true, pad: true }\<close>.\<close>

definition ioMaskOptions :: "maskOptions option" where
  "ioMaskOptions = Some \<lparr>avoidBufferUtils = Some True, pad = Some True\<rparr>"

section \<open>The masking codec on shared memory\<close>

text \<open>
  Two \<open>Buffer\<close>s may be windows on the same \<open>ArrayBuffer\<close> (\<open>subarray\<close>, \<open>Buffer.from(arrayBuffer,
  byteOffset, length)\<close>, or the same object passed twice). Then a store through one is seen by a
  later read through the other. Here memory is the bytes by address, and a buffer is a window:
  its first address and its length. Index reads and stores are as above: a read outside the
  window gives 0 under \<open>^\<close>, a store outside the window is ignored.
\<close>

type_synonym memory = "nat \<Rightarrow> byte"

record view =
  byteOffset :: nat
  byteLength :: nat

definition load :: "memory \<Rightarrow> view \<Rightarrow> nat \<Rightarrow> byte" where
  "load m b i = (if i < byteLength b then m (byteOffset b + i) else 0)"

definition store :: "memory \<Rightarrow> view \<Rightarrow> nat \<Rightarrow> byte \<Rightarrow> memory" where
  "store m b j v = (if j < byteLength b then m(byteOffset b + j := v) else m)"

text \<open>The bytes a buffer shows.\<close>

definition shown :: "memory \<Rightarrow> view \<Rightarrow> buffer" where
  "shown m b = map (\<lambda>i. m (byteOffset b + i)) [0..<byteLength b]"

text \<open>\<open>mask[pad ? Math.floor(i % mask.length) : i & 3]\<close>, read from memory.\<close>

definition loadKey :: "memory \<Rightarrow> view \<Rightarrow> bool \<Rightarrow> nat \<Rightarrow> byte" where
  "loadKey m key padded i =
     (if padded then (if byteLength key = 0 then 0 else load m key (i mod byteLength key))
      else load m key (i AND 3))"

text \<open>
  The loop of \<open>_mask\<close> on memory:
  \<^verbatim>\<open>for (let i = 0; i < length; i++) output[offset + i] = source[i] ^ mask[...]\<close>.
  Each step reads the memory the steps before have left.
\<close>

function mask_loop_shared ::
  "view \<Rightarrow> view \<Rightarrow> bool \<Rightarrow> view \<Rightarrow> nat \<Rightarrow> nat \<Rightarrow> nat \<Rightarrow> memory \<Rightarrow> memory" where
  "mask_loop_shared source key padded out offset len i m =
     (if i < len
      then mask_loop_shared source key padded out offset len (Suc i)
             (store m out (offset + i) (load m source i XOR loadKey m key padded i))
      else m)"
  by pat_completeness auto
termination
  by (relation "measure (\<lambda>(source, key, padded, out, offset, len, i, m). len - i)") auto

declare mask_loop_shared.simps [simp del]

definition unsafeMask_shared ::
  "memory \<Rightarrow> view \<Rightarrow> view \<Rightarrow> view \<Rightarrow> nat \<Rightarrow> nat \<Rightarrow> bool \<Rightarrow> memory" where
  "unsafeMask_shared m source key out offset len padded =
     mask_loop_shared source key padded out offset len 0 m"

text \<open>
  The accelerated backend and the process on shared memory: the backend returns the memory it
  leaves, or \<open>None\<close> when it throws.
\<close>

record sharedBufferUtil =
  sbu_mask :: "memory \<Rightarrow> view \<Rightarrow> view \<Rightarrow> view \<Rightarrow> nat \<Rightarrow> nat \<Rightarrow> memory option"

record sharedRuntime =
  env_NO_BUFFER_UTILS :: "string option"
  required_bufferutil :: "sharedBufferUtil option"

text \<open>The exported \<open>mask\<close> on shared memory; the same statements as \<open>maskBuffer\<close>.\<close>

definition maskBuffer_shared ::
  "sharedRuntime \<Rightarrow> memory \<Rightarrow> view \<Rightarrow> view \<Rightarrow> view \<Rightarrow> nat \<Rightarrow> nat \<Rightarrow> maskOptions option
     \<Rightarrow> memory" where
  "maskBuffer_shared rt m source key out offset len options =
     (let opts = normalizeOptions options;
          p = (pad opts = Some True)
      in if env_NO_BUFFER_UTILS rt = Some ''1'' \<or> avoidBufferUtils opts = Some True
         then unsafeMask_shared m source key out offset len p
         else if len < 48 then unsafeMask_shared m source key out offset len p
         else (case required_bufferutil rt of
                 None \<Rightarrow> unsafeMask_shared m source key out offset len p
               | Some bu \<Rightarrow>
                   (case sbu_mask bu m source key out offset len of
                      Some r \<Rightarrow> r
                    | None \<Rightarrow> unsafeMask_shared m source key out offset len p)))"

text \<open>
  The addresses a step of the loop touches: the address step \<open>i\<close> stores to, and the addresses
  step \<open>j\<close> reads from the source and from the key (\<open>None\<close> when the index is outside the
  buffer).
\<close>

definition storedAddress :: "view \<Rightarrow> nat \<Rightarrow> nat \<Rightarrow> nat option" where
  "storedAddress out offset i =
     (if offset + i < byteLength out then Some (byteOffset out + (offset + i)) else None)"

definition sourceAddress :: "view \<Rightarrow> nat \<Rightarrow> nat option" where
  "sourceAddress source j = (if j < byteLength source then Some (byteOffset source + j) else None)"

definition keyIndex :: "view \<Rightarrow> bool \<Rightarrow> nat \<Rightarrow> nat" where
  "keyIndex key padded j = (if padded then j mod byteLength key else j AND 3)"

definition keyAddress :: "view \<Rightarrow> bool \<Rightarrow> nat \<Rightarrow> nat option" where
  "keyAddress key padded j =
     (if keyIndex key padded j < byteLength key then Some (byteOffset key + keyIndex key padded j)
      else None)"

text \<open>
  No step reads a byte that an earlier step has stored: for \<open>i < j < length\<close>, the address
  step \<open>i\<close> stores to is neither the source address nor the key address of step \<open>j\<close>.
\<close>

definition readsBeforeStores :: "view \<Rightarrow> view \<Rightarrow> bool \<Rightarrow> view \<Rightarrow> nat \<Rightarrow> nat \<Rightarrow> bool" where
  "readsBeforeStores source key padded out offset len =
     list_all (\<lambda>j. list_all (\<lambda>i.
         (case storedAddress out offset i of
            None \<Rightarrow> True
          | Some a \<Rightarrow> sourceAddress source j \<noteq> Some a \<and> keyAddress key padded j \<noteq> Some a))
       [0..<j]) [0..<len]"

text \<open>Two buffers that share no byte.\<close>

definition apart :: "view \<Rightarrow> view \<Rightarrow> bool" where
  "apart a b = (byteOffset a + byteLength a \<le> byteOffset b \<or> byteOffset b + byteLength b \<le> byteOffset a)"

section \<open>Errors\<close>

text \<open>
  The codes the sources pass to \<open>new Exception(message, code)\<close>, and the \<open>code\<close> property of
  the errors Node's \<open>fs\<close> raises. \<open>TypeError\<close> is the error of reading a property of \<open>null\<close>.
\<close>

datatype errorCode =
    ERR_BUFFER_OVERFLOW
  | ERR_TOKEN_CANCELED
  | ERR_INVALID_TYPE
  | ERR_INVALID_ARGUMENT
  | ERR_RESOURCE_NOT_FOUND
  | ERR_UNSUPPORTED_OPERATION
  | ERR_PATH_IS_A_FILE
  | ERR_HTTP_FAILURE

datatype systemCode = ENOENT | EISDIR | ENOTDIR | EINVAL | ECONNREFUSED

datatype error = Exception errorCode | SystemError systemCode | TypeError

text \<open>
  Modelled from the spec: \<open>isKnownError(err, code)\<close> is imported from the errors module, whose
  index file is not among the sources. The specification names every failure by its code
  (TokenCanceled, BufferOverflow, ...); the test is taken to hold when the error is an
  \<open>Exception\<close> carrying the given code.
\<close>

definition isKnownError :: "error \<Rightarrow> errorCode \<Rightarrow> bool" where
  "isKnownError err c = (err = Exception c)"

section \<open>Byte-like values\<close>

text \<open>
  The type \<open>K\<close> of byte-like values, by what \<open>chunkToBuffer\<close> does with them: text is encoded
  (the characters of the model are the bytes of the encoding); a \<open>Buffer\<close>, \<open>ArrayBuffer\<close>,
  \<open>Uint8Array\<close>, \<open>SharedArrayBuffer\<close>, \<open>DataView\<close> or other view gives its bytes; a typed
  array of wider integers is copied element by element, each element reduced to a byte; any
  other value is refused.
\<close>

datatype chunk = Text string | Bytes buffer | Elements "int list" | Unsupported

definition chunkToBuffer :: "chunk \<Rightarrow> error + buffer" where
  "chunkToBuffer c =
     (case c of
        Bytes b \<Rightarrow> Inr b
      | Text s \<Rightarrow> Inr (map of_char s)
      | Elements xs \<Rightarrow> Inr (map word_of_int xs)
      | Unsupported \<Rightarrow> Inl (Exception ERR_INVALID_TYPE))"

text \<open>
  \<open>if(mask)\<close>: an absent mask and the empty string are falsy, every other value is truthy.
\<close>

definition truthy :: "chunk option \<Rightarrow> bool" where
  "truthy m = (case m of None \<Rightarrow> False | Some (Text s) \<Rightarrow> s \<noteq> [] | Some _ \<Rightarrow> True)"

section \<open>Cancellation tokens\<close>

text \<open>
  Modelled from the spec: the cancellation module is not among the sources (only its test
  file is). A token is "a read-only capability exposing whether an operation has been asked to
  abort"; a source "owns exactly one token". The operations below read only
  \<open>isCancellationRequested\<close> when they start; a cancellation that arrives while an operation
  runs is outside the model, where every operation is one step.
\<close>

record CancellationToken =
  isCancellationRequested :: bool

record CancellationTokenSource =
  token :: CancellationToken

definition newCancellationTokenSource :: CancellationTokenSource where
  "newCancellationTokenSource = \<lparr>token = \<lparr>isCancellationRequested = False\<rparr>\<rparr>"

section \<open>The file system\<close>

text \<open>
  Node's \<open>fs\<close> module is the environment of the storage layer. A path is absolute and is the
  list of its components; the paths handed to the primitives are in normal form (no \<open>.\<close>, no
  \<open>..\<close>, no empty component), as \<open>path.join\<close> returns them. A node is a file with its bytes
  or a directory; symbolic links and permissions are not modelled. \<open>stat\<close> reports the byte
  count of a file and, for a directory, the size the platform gives it, a parameter of the
  file system that may depend on the directory and on what the tree holds (0 on Windows, 4096
  for a small directory on ext4, growing with the entries on tmpfs). Every call of a primitive
  is recorded in \<open>calls\<close>, so that "no I/O" can be stated.
\<close>

type_synonym path = "string list"

datatype node = File buffer | Directory

datatype fsCall =
    Stat path | Lstat path | WriteFile path | AppendFile path | Unlink path | RemoveTree path
  | Mkdir path | Rename path path | CopyFile path path | ReadFile path
  | OpenWrite path | StreamWrite path | OpenRead path

record filesystem =
  nodes :: "path \<rightharpoonup> node"
  dirSize :: "(path \<rightharpoonup> node) \<Rightarrow> path \<Rightarrow> nat"
  calls :: "fsCall list"

record stats =
  st_size :: int
  isDirectory :: bool

text \<open>
  \<open>path.join\<close> concatenates its arguments and normalises the result: a component \<open>.\<close> or an
  empty one is dropped, a component \<open>..\<close> removes the component before it (at the root there
  is none to remove). A file name such as \<open>"../x"\<close> is the list \<open>["..", "x"]\<close>.
\<close>

fun resolve :: "path \<Rightarrow> path \<Rightarrow> path" where
  "resolve acc [] = rev acc"
| "resolve acc (c # cs) =
     (if c = ''.'' \<or> c = [] then resolve acc cs
      else if c = ''..'' then resolve (case acc of [] \<Rightarrow> [] | d # ds \<Rightarrow> ds) cs
      else resolve (c # acc) cs)"

definition normalizePath :: "path \<Rightarrow> path" where
  "normalizePath p = resolve [] p"

definition join :: "path \<Rightarrow> path \<Rightarrow> path" where
  "join a b = normalizePath (a @ b)"

definition called :: "fsCall \<Rightarrow> filesystem \<Rightarrow> filesystem" where
  "called c fs = fs\<lparr>calls := calls fs @ [c]\<rparr>"

text \<open>Why a file cannot be created or replaced at a path, if it cannot.\<close>

definition notWritable :: "filesystem \<Rightarrow> path \<Rightarrow> systemCode option" where
  "notWritable fs p =
     (case nodes fs p of
        Some Directory \<Rightarrow> Some EISDIR
      | _ \<Rightarrow> (case nodes fs (butlast p) of
                Some Directory \<Rightarrow> None
              | Some (File b) \<Rightarrow> Some ENOTDIR
              | None \<Rightarrow> Some ENOENT))"

definition fs_stat :: "path \<Rightarrow> filesystem \<Rightarrow> (error + stats) \<times> filesystem" where
  "fs_stat p fs =
     (case nodes fs p of
        None \<Rightarrow> (Inl (SystemError ENOENT), called (Stat p) fs)
      | Some (File b) \<Rightarrow> (Inr \<lparr>st_size = int (length b), isDirectory = False\<rparr>, called (Stat p) fs)
      | Some Directory \<Rightarrow> (Inr \<lparr>st_size = int (dirSize fs (nodes fs) p), isDirectory = True\<rparr>, called (Stat p) fs))"

definition fs_lstat :: "path \<Rightarrow> filesystem \<Rightarrow> (error + stats) \<times> filesystem" where
  "fs_lstat p fs =
     (case nodes fs p of
        None \<Rightarrow> (Inl (SystemError ENOENT), called (Lstat p) fs)
      | Some (File b) \<Rightarrow> (Inr \<lparr>st_size = int (length b), isDirectory = False\<rparr>, called (Lstat p) fs)
      | Some Directory \<Rightarrow> (Inr \<lparr>st_size = int (dirSize fs (nodes fs) p), isDirectory = True\<rparr>, called (Lstat p) fs))"

definition fs_writeFile :: "path \<Rightarrow> buffer \<Rightarrow> filesystem \<Rightarrow> (error + unit) \<times> filesystem" where
  "fs_writeFile p data fs =
     (case notWritable fs p of
        Some e \<Rightarrow> (Inl (SystemError e), called (WriteFile p) fs)
      | None \<Rightarrow> (Inr (), called (WriteFile p) (fs\<lparr>nodes := (nodes fs)(p \<mapsto> File data)\<rparr>)))"

definition fs_appendFile :: "path \<Rightarrow> buffer \<Rightarrow> filesystem \<Rightarrow> (error + unit) \<times> filesystem" where
  "fs_appendFile p data fs =
     (case notWritable fs p of
        Some e \<Rightarrow> (Inl (SystemError e), called (AppendFile p) fs)
      | None \<Rightarrow>
          (Inr (), called (AppendFile p)
             (fs\<lparr>nodes := (nodes fs)(p \<mapsto>
                    File ((case nodes fs p of Some (File old) \<Rightarrow> old | _ \<Rightarrow> []) @ data))\<rparr>)))"

definition fs_readFile :: "path \<Rightarrow> filesystem \<Rightarrow> (error + buffer) \<times> filesystem" where
  "fs_readFile p fs =
     (case nodes fs p of
        None \<Rightarrow> (Inl (SystemError ENOENT), called (ReadFile p) fs)
      | Some Directory \<Rightarrow> (Inl (SystemError EISDIR), called (ReadFile p) fs)
      | Some (File b) \<Rightarrow> (Inr b, called (ReadFile p) fs))"

definition fs_unlink :: "path \<Rightarrow> filesystem \<Rightarrow> (error + unit) \<times> filesystem" where
  "fs_unlink p fs =
     (case nodes fs p of
        None \<Rightarrow> (Inl (SystemError ENOENT), called (Unlink p) fs)
      | Some Directory \<Rightarrow> (Inl (SystemError EISDIR), called (Unlink p) fs)
      | Some (File b) \<Rightarrow> (Inr (), called (Unlink p) (fs\<lparr>nodes := (nodes fs)(p := None)\<rparr>)))"

text \<open>\<open>mkdir\<close> with \<open>recursive: true\<close>: the missing ancestors are created too.\<close>

definition fs_mkdir :: "path \<Rightarrow> filesystem \<Rightarrow> (error + unit) \<times> filesystem" where
  "fs_mkdir p fs =
     (if list_ex (\<lambda>q. case nodes fs q of Some (File b) \<Rightarrow> True | _ \<Rightarrow> False) (prefixes p)
      then (Inl (SystemError ENOTDIR), called (Mkdir p) fs)
      else (Inr (), called (Mkdir p)
              (fs\<lparr>nodes := (\<lambda>q. if prefix q p \<and> nodes fs q = None then Some Directory
                                  else nodes fs q)\<rparr>)))"

text \<open>\<open>rename\<close> moves a node with everything below it.\<close>

definition fs_rename :: "path \<Rightarrow> path \<Rightarrow> filesystem \<Rightarrow> (error + unit) \<times> filesystem" where
  "fs_rename old new fs =
     (case nodes fs old of
        None \<Rightarrow> (Inl (SystemError ENOENT), called (Rename old new) fs)
      | Some n \<Rightarrow>
          (case nodes fs (butlast new) of
             None \<Rightarrow> (Inl (SystemError ENOENT), called (Rename old new) fs)
           | Some (File b) \<Rightarrow> (Inl (SystemError ENOTDIR), called (Rename old new) fs)
           | Some Directory \<Rightarrow>
               if old = new then (Inr (), called (Rename old new) fs)
               else if prefix old new then (Inl (SystemError EINVAL), called (Rename old new) fs)
               else if n \<noteq> Directory \<and> nodes fs new = Some Directory
               then (Inl (SystemError EISDIR), called (Rename old new) fs)
               else if n = Directory \<and> nodes fs new \<noteq> None \<and> nodes fs new \<noteq> Some Directory
               then (Inl (SystemError ENOTDIR), called (Rename old new) fs)
               else (Inr (), called (Rename old new)
                       (fs\<lparr>nodes := (\<lambda>q. if prefix new q
                                           then nodes fs (old @ drop (length new) q)
                                           else if prefix old q then None else nodes fs q)\<rparr>))))"

definition fs_copyFile :: "path \<Rightarrow> path \<Rightarrow> filesystem \<Rightarrow> (error + unit) \<times> filesystem" where
  "fs_copyFile src dest fs =
     (case nodes fs src of
        None \<Rightarrow> (Inl (SystemError ENOENT), called (CopyFile src dest) fs)
      | Some Directory \<Rightarrow> (Inl (SystemError EISDIR), called (CopyFile src dest) fs)
      | Some (File b) \<Rightarrow>
          (case notWritable fs dest of
             Some e \<Rightarrow> (Inl (SystemError e), called (CopyFile src dest) fs)
           | None \<Rightarrow> (Inr (), called (CopyFile src dest) (fs\<lparr>nodes := (nodes fs)(dest \<mapsto> File b)\<rparr>))))"

text \<open>
  A write stream: \<open>createWriteStream\<close> opens the path for writing, which creates the file or
  empties it; each \<open>stream.write\<close> appends a buffer.
\<close>

definition fs_openWrite :: "path \<Rightarrow> filesystem \<Rightarrow> (error + unit) \<times> filesystem" where
  "fs_openWrite p fs =
     (case notWritable fs p of
        Some e \<Rightarrow> (Inl (SystemError e), called (OpenWrite p) fs)
      | None \<Rightarrow> (Inr (), called (OpenWrite p) (fs\<lparr>nodes := (nodes fs)(p \<mapsto> File [])\<rparr>)))"

definition fs_streamWrite :: "path \<Rightarrow> buffer \<Rightarrow> filesystem \<Rightarrow> filesystem" where
  "fs_streamWrite p data fs =
     called (StreamWrite p)
       (fs\<lparr>nodes := (nodes fs)(p \<mapsto>
              File ((case nodes fs p of Some (File old) \<Rightarrow> old | _ \<Rightarrow> []) @ data))\<rparr>)"

section \<open>Directory primitives (fs core module)\<close>

text \<open>
  \<open>ensureDir\<close>: \<open>stat\<close>; a path that exists and is not a directory is refused (the
  \<open>Exception\<close> thrown in the \<open>try\<close> block has no \<open>code\<close> property, so the handler rethrows it);
  a missing path is created with \<open>mkdir\<close>, recursively.
\<close>

definition ensureDir :: "path \<Rightarrow> filesystem \<Rightarrow> (error + unit) \<times> filesystem" where
  "ensureDir dirname fs =
     (case fs_stat dirname fs of
        (Inr st, fs1) \<Rightarrow>
          if \<not> isDirectory st then (Inl (Exception ERR_PATH_IS_A_FILE), fs1) else (Inr (), fs1)
      | (Inl err, fs1) \<Rightarrow>
          if err = SystemError ENOENT then fs_mkdir dirname fs1 else (Inl err, fs1))"

text \<open>
  \<open>rimraf\<close> in recursive mode, the mode of every call in the storage layer: \<open>lstat\<close>; a
  directory is removed with everything below it (the walk \<open>readdir\<close>, \<open>rimraf\<close> of each entry,
  \<open>rmdir\<close> is one step of the model, where no removal can fail); a file is unlinked; a missing
  path is not an error.
\<close>

definition removeTree :: "path \<Rightarrow> filesystem \<Rightarrow> filesystem" where
  "removeTree p fs =
     called (RemoveTree p) (fs\<lparr>nodes := (\<lambda>q. if prefix p q then None else nodes fs q)\<rparr>)"

definition rimraf :: "path \<Rightarrow> filesystem \<Rightarrow> (error + unit) \<times> filesystem" where
  "rimraf pathname fs =
     (case fs_lstat pathname fs of
        (Inl err, fs1) \<Rightarrow> if err \<noteq> SystemError ENOENT then (Inl err, fs1) else (Inr (), fs1)
      | (Inr st, fs1) \<Rightarrow>
          if isDirectory st then (Inr (), removeTree pathname fs1)
          else (case fs_unlink pathname fs1 of
                  (Inl err, fs2) \<Rightarrow>
                    if err \<noteq> SystemError ENOENT then (Inl err, fs2) else (Inr (), fs2)
                | (Inr u, fs2) \<Rightarrow> (Inr (), fs2)))"


section \<open>Binary I/O primitives (fs binary module)\<close>

text \<open>
  The block the three writers share: with a truthy mask, the content is masked in padded mode
  into a fresh buffer of the same length; the coercion of the mask can fail.
\<close>

definition maskForWrite :: "runtime \<Rightarrow> chunk option \<Rightarrow> buffer \<Rightarrow> error + buffer" where
  "maskForWrite rt msk buffer =
     (if truthy msk
      then (case chunkToBuffer (the msk) of
              Inl err \<Rightarrow> Inl err
            | Inr key \<Rightarrow>
                Inr (maskBuffer rt buffer key (alloc (length buffer)) 0 (length buffer) ioMaskOptions))
      else Inr buffer)"

definition cancelled :: "CancellationToken option \<Rightarrow> bool" where
  "cancelled tok = (case tok of None \<Rightarrow> False | Some t \<Rightarrow> isCancellationRequested t)"

definition writeBinary ::
  "runtime \<Rightarrow> path \<Rightarrow> chunk \<Rightarrow> chunk option \<Rightarrow> CancellationToken option \<Rightarrow> filesystem
     \<Rightarrow> (error + unit) \<times> filesystem" where
  "writeBinary rt filepath contents msk tok fs =
     (if cancelled tok then (Inl (Exception ERR_TOKEN_CANCELED), fs)
      else (case chunkToBuffer contents of
              Inl err \<Rightarrow> (Inl err, fs)
            | Inr buffer \<Rightarrow>
                (case maskForWrite rt msk buffer of
                   Inl err \<Rightarrow> (Inl err, fs)
                 | Inr buffer' \<Rightarrow> fs_writeFile filepath buffer' fs)))"

definition writeBinarySync ::
  "runtime \<Rightarrow> path \<Rightarrow> chunk \<Rightarrow> chunk option \<Rightarrow> filesystem \<Rightarrow> (error + unit) \<times> filesystem" where
  "writeBinarySync rt filepath contents msk fs =
     (case chunkToBuffer contents of
        Inl err \<Rightarrow> (Inl err, fs)
      | Inr buffer \<Rightarrow>
          (case maskForWrite rt msk buffer of
             Inl err \<Rightarrow> (Inl err, fs)
           | Inr buffer' \<Rightarrow> fs_writeFile filepath buffer' fs))"

text \<open>
  The loop of \<open>writeBinaryStream\<close> over the chunks, with the count of bytes written so far:
  each chunk is coerced, masked on its own and written; the first chunk (or mask) that cannot
  be coerced ends the loop with its error, after the chunks before it were written. The
  content is a finite sequence; waiting for \<open>drain\<close> changes no byte and is not modelled.
\<close>

fun writeChunks ::
  "runtime \<Rightarrow> path \<Rightarrow> chunk option \<Rightarrow> chunk list \<Rightarrow> nat \<Rightarrow> filesystem \<Rightarrow> (error + nat) \<times> filesystem"
  where
  "writeChunks rt filepath msk [] writtenBytes fs = (Inr writtenBytes, fs)"
| "writeChunks rt filepath msk (c # content) writtenBytes fs =
     (case chunkToBuffer c of
        Inl err \<Rightarrow> (Inl err, fs)
      | Inr buffer \<Rightarrow>
          (case maskForWrite rt msk buffer of
             Inl err \<Rightarrow> (Inl err, fs)
           | Inr buffer' \<Rightarrow>
               writeChunks rt filepath msk content (writtenBytes + length buffer')
                 (fs_streamWrite filepath buffer' fs)))"

text \<open>
  \<open>writeBinaryStream\<close>. There is no check of the token before the stream is created: a
  token that is already cancelled rejects the promise at once, when the listener is
  registered; the stream is still created, with the aborted signal, and is taken to open (and
  so empty) the file and to write nothing. Otherwise the first error wins: that of a chunk the
  loop cannot coerce, or the stream's \<open>error\<close> event when the file cannot be opened; without
  an error the promise resolves with the byte count at \<open>finish\<close>.
\<close>

definition writeBinaryStream ::
  "runtime \<Rightarrow> path \<Rightarrow> chunk list \<Rightarrow> chunk option \<Rightarrow> CancellationToken option \<Rightarrow> filesystem
     \<Rightarrow> (error + nat) \<times> filesystem" where
  "writeBinaryStream rt filepath content msk tok fs =
     (case fs_openWrite filepath fs of
        (Inl err, fs1) \<Rightarrow>
          (if cancelled tok then Inl (Exception ERR_TOKEN_CANCELED)
           else (case fst (writeChunks rt filepath msk content 0 fs1) of
                   Inl err' \<Rightarrow> Inl err'
                 | Inr n \<Rightarrow> Inl err),
           fs1)
      | (Inr u, fs1) \<Rightarrow>
          if cancelled tok then (Inl (Exception ERR_TOKEN_CANCELED), fs1)
          else writeChunks rt filepath msk content 0 fs1)"

section \<open>Quota-bounded temporary storage (fs temp module)\<close>

text \<open>
  The private fields of a \<open>TemporaryDirectory\<close>: the ledger \<open>#state\<close> and the cancellation
  source \<open>#source\<close>, which \<open>dispose\<close> sets to \<open>null\<close> (\<open>None\<close>). Sizes are JavaScript numbers;
  the model takes them as integers (exact below \<open>2^53\<close>).
\<close>

record TemporaryDirectory =
  pathname :: path
  maxSize :: int
  sizeof :: int
  disposed :: bool
  source :: "CancellationTokenSource option"

record TempOptions =
  opt_maxSize :: "int option"

text \<open>
  The constructor: \<open>maxSize: _msize || 4 * 1024 * 1024 * 1024\<close>, so an absent or zero
  \<open>maxSize\<close> is 4 GiB. The listener it registers replaces a cancelled source by a fresh one.
\<close>

definition construct :: "path \<Rightarrow> int \<Rightarrow> int option \<Rightarrow> TemporaryDirectory" where
  "construct p sz msize =
     \<lparr>pathname = p,
      maxSize = (case msize of None \<Rightarrow> 4 * 1024 * 1024 * 1024
                 | Some m \<Rightarrow> if m = 0 then 4 * 1024 * 1024 * 1024 else m),
      sizeof = sz,
      disposed = False,
      source = Some newCancellationTokenSource\<rparr>"

text \<open>
  \<open>TemporaryDirectory.create\<close> (and \<open>createSync\<close>) for a given pathname: the directory is
  ensured, and its own \<open>stat\<close> size is the initial value of the ledger. Without a pathname the
  source generates one (\<open>path.join(tempdir(), uuid())\<close>) and goes on in the same way.
\<close>

definition create ::
  "path \<Rightarrow> TempOptions option \<Rightarrow> filesystem \<Rightarrow> (error + TemporaryDirectory) \<times> filesystem" where
  "create p options fs =
     (case ensureDir p fs of
        (Inl err, fs1) \<Rightarrow> (Inl err, fs1)
      | (Inr u, fs1) \<Rightarrow>
          (case fs_stat p fs1 of
             (Inl err, fs2) \<Rightarrow> (Inl err, fs2)
           | (Inr st, fs2) \<Rightarrow>
               (Inr (construct p (st_size st)
                       (case options of None \<Rightarrow> None | Some opts \<Rightarrow> opt_maxSize opts)),
                fs2)))"

text \<open>
  The methods. Each takes the instance and the file system and returns the outcome, the
  instance and the file system after the call. The \<open>Sync\<close> variants have the same bodies over
  the synchronous primitives, which the model does not tell apart.
\<close>

type_synonym 'a outcome = "(error + 'a) \<times> TemporaryDirectory \<times> filesystem"

definition TemporaryDirectory_write ::
  "TemporaryDirectory \<Rightarrow> path \<Rightarrow> chunk \<Rightarrow> filesystem \<Rightarrow> unit outcome" where
  "TemporaryDirectory_write td filename contents fs =
     (case chunkToBuffer contents of
        Inl err \<Rightarrow> (Inl err, td, fs)
      | Inr buffer \<Rightarrow>
          if sizeof td + int (length buffer) > maxSize td
          then (Inl (Exception ERR_BUFFER_OVERFLOW), td, fs)
          else (case fs_writeFile (join (pathname td) filename) buffer fs of
                  (Inl err, fs1) \<Rightarrow> (Inl err, td, fs1)
                | (Inr u, fs1) \<Rightarrow> (Inr (), td\<lparr>sizeof := sizeof td + int (length buffer)\<rparr>, fs1)))"

definition TemporaryDirectory_writeSync ::
  "TemporaryDirectory \<Rightarrow> path \<Rightarrow> chunk \<Rightarrow> filesystem \<Rightarrow> unit outcome" where
  "TemporaryDirectory_writeSync = TemporaryDirectory_write"

definition TemporaryDirectory_append ::
  "TemporaryDirectory \<Rightarrow> path \<Rightarrow> chunk \<Rightarrow> filesystem \<Rightarrow> unit outcome" where
  "TemporaryDirectory_append td filename contents fs =
     (case chunkToBuffer contents of
        Inl err \<Rightarrow> (Inl err, td, fs)
      | Inr buffer \<Rightarrow>
          if sizeof td + int (length buffer) > maxSize td
          then (Inl (Exception ERR_BUFFER_OVERFLOW), td, fs)
          else (case fs_appendFile (join (pathname td) filename) buffer fs of
                  (Inl err, fs1) \<Rightarrow> (Inl err, td, fs1)
                | (Inr u, fs1) \<Rightarrow> (Inr (), td\<lparr>sizeof := sizeof td + int (length buffer)\<rparr>, fs1)))"

definition TemporaryDirectory_appendSync ::
  "TemporaryDirectory \<Rightarrow> path \<Rightarrow> chunk \<Rightarrow> filesystem \<Rightarrow> unit outcome" where
  "TemporaryDirectory_appendSync = TemporaryDirectory_append"

text \<open>
  The default value of the \<open>token\<close> parameter is \<open>this.#source.token\<close>: on an instance whose
  source is \<open>null\<close> the read throws a \<open>TypeError\<close> before the body runs.
\<close>

definition defaultToken ::
  "TemporaryDirectory \<Rightarrow> CancellationToken option \<Rightarrow> error + CancellationToken" where
  "defaultToken td tok =
     (case tok of
        Some t \<Rightarrow> Inr t
      | None \<Rightarrow> (case source td of None \<Rightarrow> Inl TypeError | Some s \<Rightarrow> Inr (token s)))"

text \<open>
  The \<open>catch\<close> block of \<open>writeBinary\<close> and \<open>writeBinaryStream\<close>: after a cancellation, with
  \<open>removeOnError\<close>, the file is unlinked (a missing file is fine, another failure of \<open>unlink\<close>
  replaces the error); then the error is rethrown.
\<close>

record writeOptions =
  removeOnError :: "bool option"

definition removeOnErrorSet :: "writeOptions option \<Rightarrow> bool" where
  "removeOnErrorSet options = (case options of None \<Rightarrow> False | Some opts \<Rightarrow> removeOnError opts = Some True)"

definition rethrow ::
  "TemporaryDirectory \<Rightarrow> path \<Rightarrow> writeOptions option \<Rightarrow> error \<Rightarrow> filesystem \<Rightarrow> unit outcome" where
  "rethrow td filename options err fs =
     (if isKnownError err ERR_TOKEN_CANCELED \<and> removeOnErrorSet options
      then (case fs_unlink (join (pathname td) filename) fs of
              (Inl fsErr, fs1) \<Rightarrow>
                if fsErr \<noteq> SystemError ENOENT then (Inl fsErr, td, fs1) else (Inl err, td, fs1)
            | (Inr u, fs1) \<Rightarrow> (Inl err, td, fs1))
      else (Inl err, td, fs))"

definition TemporaryDirectory_writeBinary ::
  "runtime \<Rightarrow> TemporaryDirectory \<Rightarrow> path \<Rightarrow> chunk \<Rightarrow> chunk option \<Rightarrow> CancellationToken option
     \<Rightarrow> writeOptions option \<Rightarrow> filesystem \<Rightarrow> unit outcome" where
  "TemporaryDirectory_writeBinary rt td filename contents msk tok options fs =
     (case defaultToken td tok of
        Inl err \<Rightarrow> (Inl err, td, fs)
      | Inr t \<Rightarrow>
          (case chunkToBuffer contents of
             Inl err \<Rightarrow> rethrow td filename options err fs
           | Inr buffer \<Rightarrow>
               if sizeof td + int (length buffer) > maxSize td
               then rethrow td filename options (Exception ERR_BUFFER_OVERFLOW) fs
               else (case writeBinary rt (join (pathname td) filename) contents msk (Some t) fs of
                       (Inl err, fs1) \<Rightarrow> rethrow td filename options err fs1
                     | (Inr u, fs1) \<Rightarrow>
                         (Inr (), td\<lparr>sizeof := sizeof td + int (length buffer)\<rparr>, fs1))))"

definition TemporaryDirectory_writeBinarySync ::
  "runtime \<Rightarrow> TemporaryDirectory \<Rightarrow> path \<Rightarrow> chunk \<Rightarrow> chunk option \<Rightarrow> filesystem \<Rightarrow> unit outcome"
  where
  "TemporaryDirectory_writeBinarySync rt td filename contents msk fs =
     (case chunkToBuffer contents of
        Inl err \<Rightarrow> (Inl err, td, fs)
      | Inr buffer \<Rightarrow>
          if sizeof td + int (length buffer) > maxSize td
          then (Inl (Exception ERR_BUFFER_OVERFLOW), td, fs)
          else (case writeBinarySync rt (join (pathname td) filename) contents msk fs of
                  (Inl err, fs1) \<Rightarrow> (Inl err, td, fs1)
                | (Inr u, fs1) \<Rightarrow> (Inr (), td\<lparr>sizeof := sizeof td + int (length buffer)\<rparr>, fs1)))"

definition TemporaryDirectory_writeBinaryStream ::
  "runtime \<Rightarrow> TemporaryDirectory \<Rightarrow> path \<Rightarrow> chunk list \<Rightarrow> chunk option \<Rightarrow> CancellationToken option
     \<Rightarrow> writeOptions option \<Rightarrow> filesystem \<Rightarrow> unit outcome" where
  "TemporaryDirectory_writeBinaryStream rt td filename content msk tok options fs =
     (case defaultToken td tok of
        Inl err \<Rightarrow> (Inl err, td, fs)
      | Inr t \<Rightarrow>
          (case writeBinaryStream rt (join (pathname td) filename) content msk (Some t) fs of
             (Inl err, fs1) \<Rightarrow> rethrow td filename options err fs1
           | (Inr writtenBytes, fs1) \<Rightarrow>
               if sizeof td + int writtenBytes > maxSize td
               then (case rimraf (join (pathname td) filename) fs1 of
                       (Inl err, fs2) \<Rightarrow> rethrow td filename options err fs2
                     | (Inr u, fs2) \<Rightarrow>
                         rethrow td filename options (Exception ERR_BUFFER_OVERFLOW) fs2)
               else (Inr (), td\<lparr>sizeof := sizeof td + int writtenBytes\<rparr>, fs1)))"

text \<open>
  \<open>remove\<close> (and \<open>removeSync\<close>): the entry's \<open>stat\<close> size is taken off the ledger after the
  removal; a missing entry is reported as ResourceNotFound.
\<close>

definition TemporaryDirectory_remove ::
  "TemporaryDirectory \<Rightarrow> path \<Rightarrow> filesystem \<Rightarrow> unit outcome" where
  "TemporaryDirectory_remove td filename fs =
     (case fs_stat (join (pathname td) filename) fs of
        (Inl err, fs1) \<Rightarrow>
          (if err = SystemError ENOENT then Inl (Exception ERR_RESOURCE_NOT_FOUND) else Inl err,
           td, fs1)
      | (Inr st, fs1) \<Rightarrow>
          (case rimraf (join (pathname td) filename) fs1 of
             (Inl err, fs2) \<Rightarrow>
               (if err = SystemError ENOENT then Inl (Exception ERR_RESOURCE_NOT_FOUND) else Inl err,
                td, fs2)
           | (Inr u, fs2) \<Rightarrow> (Inr (), td\<lparr>sizeof := sizeof td - st_size st\<rparr>, fs2)))"

definition TemporaryDirectory_removeSync ::
  "TemporaryDirectory \<Rightarrow> path \<Rightarrow> filesystem \<Rightarrow> unit outcome" where
  "TemporaryDirectory_removeSync = TemporaryDirectory_remove"

definition TemporaryDirectory_clear :: "TemporaryDirectory \<Rightarrow> filesystem \<Rightarrow> unit outcome" where
  "TemporaryDirectory_clear td fs =
     (case rimraf (pathname td) fs of
        (Inl err, fs1) \<Rightarrow> (Inl err, td, fs1)
      | (Inr u, fs1) \<Rightarrow>
          (case ensureDir (pathname td) fs1 of
             (Inl err, fs2) \<Rightarrow> (Inl err, td, fs2)
           | (Inr u', fs2) \<Rightarrow> (Inr (), td\<lparr>sizeof := 0\<rparr>, fs2)))"

definition TemporaryDirectory_rename ::
  "TemporaryDirectory \<Rightarrow> path \<Rightarrow> path \<Rightarrow> filesystem \<Rightarrow> unit outcome" where
  "TemporaryDirectory_rename td oldName newName fs =
     (case fs_rename (join (pathname td) oldName) (join (pathname td) newName) fs of
        (r, fs1) \<Rightarrow> (r, td, fs1))"

definition TemporaryDirectory_copy ::
  "TemporaryDirectory \<Rightarrow> path \<Rightarrow> path \<Rightarrow> filesystem \<Rightarrow> unit outcome" where
  "TemporaryDirectory_copy td src destination fs =
     (case fs_copyFile (join (pathname td) src) (join (pathname td) destination) fs of
        (r, fs1) \<Rightarrow> (r, td, fs1))"

definition TemporaryDirectory_createSubdirectory ::
  "TemporaryDirectory \<Rightarrow> path \<Rightarrow> filesystem \<Rightarrow> unit outcome" where
  "TemporaryDirectory_createSubdirectory td name fs =
     (case ensureDir (join (pathname td) name) fs of (r, fs1) \<Rightarrow> (r, td, fs1))"

text \<open>
  \<open>dispose\<close>: nothing on a disposed instance; otherwise the source is cancelled (a
  \<open>TypeError\<close> if it is \<open>null\<close>) and set to \<open>null\<close>, the directory is removed, the ledger is
  reset and the instance is marked. An error of \<open>rimrafSync\<close> leaves the ledger and the mark
  as they were.
\<close>

definition dispose :: "TemporaryDirectory \<Rightarrow> filesystem \<Rightarrow> unit outcome" where
  "dispose td fs =
     (if disposed td then (Inr (), td, fs)
      else (case source td of
              None \<Rightarrow> (Inl TypeError, td, fs)
            | Some s \<Rightarrow>
                (case rimraf (pathname td) fs of
                   (Inl err, fs1) \<Rightarrow> (Inl err, td\<lparr>source := None\<rparr>, fs1)
                 | (Inr u, fs1) \<Rightarrow>
                     (Inr (), td\<lparr>source := None, sizeof := 0, disposed := True\<rparr>, fs1))))"

section \<open>The download service\<close>

text \<open>
  A resource locator, as the string \<open>#metadata.source\<close> is used: its scheme decides the
  transport (\<open>startsWith('file:')\<close>, \<open>startsWith('https:')\<close>), and for a \<open>file:\<close> locator the
  rest is the path of the local file. A destination is a path; the empty path is the empty
  string, which is falsy.
\<close>

record locator =
  scheme :: string
  location :: path

record DownloadOptions =
  opt_destination :: "path option"
  opt_token :: "CancellationToken option"
  opt_timeout :: "int option"

record DownloadService =
  metadata_source :: locator
  metadata_destination :: path
  metadata_options :: DownloadOptions
  downloadSource :: CancellationTokenSource

text \<open>
  The constructor, with its second argument a destination (\<open>Inl\<close>) or an options object
  (\<open>Inr\<close>). The destination is resolved and checked first, the token after it. In the second
  case the destination is read from the third argument, \<open>options?.destination.toString()\<close>:
  \<open>undefined\<close> when there is no third argument, a \<open>TypeError\<close> when that object has no
  destination. The constructor touches neither the disk nor the network.
\<close>

definition newDownloadService ::
  "locator \<Rightarrow> path + DownloadOptions \<Rightarrow> DownloadOptions option \<Rightarrow> error + DownloadService" where
  "newDownloadService resource destinationOrOptions options =
     (case (case destinationOrOptions of
              Inl d \<Rightarrow> Inr (Some d)
            | Inr opts \<Rightarrow>
                (case options of
                   None \<Rightarrow> Inr None
                 | Some opts3 \<Rightarrow>
                     (case opt_destination opts3 of None \<Rightarrow> Inl TypeError | Some d \<Rightarrow> Inr (Some d))))
      of
        Inl err \<Rightarrow> Inl err
      | Inr dest \<Rightarrow>
          if dest = None \<or> dest = Some [] then Inl (Exception ERR_INVALID_ARGUMENT)
          else
            (let o' = (case destinationOrOptions of Inl d \<Rightarrow> options | Inr opts \<Rightarrow> Some opts)
             in if cancelled (case o' of None \<Rightarrow> None | Some opts \<Rightarrow> opt_token opts)
                then Inl (Exception ERR_TOKEN_CANCELED)
                else Inr \<lparr>metadata_source = resource,
                          metadata_destination = the dest,
                          metadata_options =
                            (case o' of
                               None \<Rightarrow> \<lparr>opt_destination = None, opt_token = None, opt_timeout = None\<rparr>
                             | Some opts \<Rightarrow> opts),
                          downloadSource = newCancellationTokenSource\<rparr>))"

text \<open>
  What a download acts on: the disk, the requests issued so far and the lines printed to the
  console. What a request yields is the environment's: an error, a response (status code and
  body chunks), or nothing at all.
\<close>

record host =
  disk :: filesystem
  requested :: "locator list"
  consoleLines :: nat

datatype httpOutcome = RequestError error | NoAnswer | Response nat "buffer list"

text \<open>
  The step both transports share: a token given for this call is checked, and a cancelled one
  rejects the call; otherwise the internal source is replaced by one chained to it.
\<close>

definition installToken ::
  "DownloadService \<Rightarrow> DownloadOptions option \<Rightarrow> error + DownloadService" where
  "installToken svc overrides =
     (case (case overrides of None \<Rightarrow> None | Some ov \<Rightarrow> opt_token ov) of
        None \<Rightarrow> Inr svc
      | Some t \<Rightarrow>
          if isCancellationRequested t then Inl (Exception ERR_TOKEN_CANCELED)
          else Inr (svc\<lparr>downloadSource := newCancellationTokenSource\<rparr>))"

definition destPathOf :: "DownloadService \<Rightarrow> DownloadOptions option \<Rightarrow> path" where
  "destPathOf svc overrides =
     (case (case overrides of None \<Rightarrow> None | Some ov \<Rightarrow> opt_destination ov) of
        Some d \<Rightarrow> if d = [] then metadata_destination svc else d
      | None \<Rightarrow> metadata_destination svc)"

text \<open>
  The transfer of \<open>#downloadFromFile\<close>: \<open>stat\<close> of the source, a read stream on it and a
  write stream on the destination, every chunk written and collected; the promise resolves
  with the content. The result \<open>None\<close> is a promise that never settles. Progress events,
  the timeout race and a cancellation that arrives during the transfer are not modelled.
\<close>

definition transferFile :: "path \<Rightarrow> path \<Rightarrow> filesystem \<Rightarrow> (error + buffer) option \<times> filesystem" where
  "transferFile src destPath fs =
     (case fs_stat src fs of
        (Inl err, fs1) \<Rightarrow> (Some (Inl err), fs1)
      | (Inr st, fs1) \<Rightarrow>
          (case fs_openWrite destPath (called (OpenRead src) fs1) of
             (Inl err, fs2) \<Rightarrow>
               (Some (Inl (if isDirectory st then SystemError EISDIR else err)), fs2)
           | (Inr u, fs2) \<Rightarrow>
               (case nodes fs1 src of
                  Some (File b) \<Rightarrow> (Some (Inr b), fs_streamWrite destPath b fs2)
                | _ \<Rightarrow> (Some (Inl (SystemError EISDIR)), fs2))))"

definition downloadFromFile ::
  "DownloadService \<Rightarrow> DownloadOptions option \<Rightarrow> host
     \<Rightarrow> (error + buffer) option \<times> DownloadService \<times> host" where
  "downloadFromFile svc overrides h =
     (if scheme (metadata_source svc) \<noteq> ''file''
      then (Some (Inl (Exception ERR_UNSUPPORTED_OPERATION)), svc, h)
      else (case installToken svc overrides of
              Inl err \<Rightarrow> (Some (Inl err), svc, h)
            | Inr svc1 \<Rightarrow>
                if destPathOf svc1 overrides = []
                then (Some (Inl (Exception ERR_INVALID_ARGUMENT)), svc1, h)
                else (case transferFile (location (metadata_source svc1))
                             (destPathOf svc1 overrides) (disk h) of
                        (r, fs1) \<Rightarrow> (r, svc1, h\<lparr>disk := fs1\<rparr>))))"

text \<open>
  \<open>download\<close>: a \<open>file:\<close> locator goes to \<open>#downloadFromFile\<close>. Otherwise the metadata is
  printed to the console, then the token is checked, then the request is made: a status
  outside the 2xx class rejects with HttpFailure before the destination is opened; a response
  that is accepted is streamed into the destination and collected. A destination that cannot
  be opened raises the stream's \<open>error\<close> event, which this path does not listen to: the
  promise does not settle.
\<close>

definition download ::
  "(locator \<Rightarrow> httpOutcome) \<Rightarrow> DownloadService \<Rightarrow> DownloadOptions option \<Rightarrow> host
     \<Rightarrow> (error + buffer) option \<times> DownloadService \<times> host" where
  "download net svc overrides h =
     (if scheme (metadata_source svc) = ''file'' then downloadFromFile svc overrides h
      else
        (let h1 = h\<lparr>consoleLines := consoleLines h + 1\<rparr> in
         case installToken svc overrides of
           Inl err \<Rightarrow> (Some (Inl err), svc, h1)
         | Inr svc1 \<Rightarrow>
             if destPathOf svc1 overrides = []
             then (Some (Inl (Exception ERR_INVALID_ARGUMENT)), svc1, h1)
             else
               (let h2 = h1\<lparr>requested := requested h1 @ [metadata_source svc1]\<rparr> in
                case net (metadata_source svc1) of
                  RequestError err \<Rightarrow> (Some (Inl err), svc1, h2)
                | NoAnswer \<Rightarrow> (None, svc1, h2)
                | Response statusCode body \<Rightarrow>
                    if (if statusCode = 0 then 500 else statusCode) div 100 \<noteq> 2
                    then (Some (Inl (Exception ERR_HTTP_FAILURE)), svc1, h2)
                    else (case fs_openWrite (destPathOf svc1 overrides) (disk h2) of
                            (Inl err, fs1) \<Rightarrow> (None, svc1, h2\<lparr>disk := fs1\<rparr>)
                          | (Inr u, fs1) \<Rightarrow>
                              (Some (Inr (concat body)), svc1,
                               h2\<lparr>disk := fold (fs_streamWrite (destPathOf svc1 overrides)) body fs1\<rparr>)))))"


section \<open>Sample inputs\<close>

text \<open>
  A disk with the root and a temporary root \<open>/tmp\<close>, on a platform whose directories have
  \<open>stat\<close> size 0, and the same disk on a platform where they have size 4096.
\<close>

definition sampleDisk :: filesystem where
  "sampleDisk = \<lparr>nodes = [[] \<mapsto> Directory, [''tmp''] \<mapsto> Directory], dirSize = (\<lambda>tree d. 0), calls = []\<rparr>"

definition sampleDisk4096 :: filesystem where
  "sampleDisk4096 =
     \<lparr>nodes = [[] \<mapsto> Directory, [''tmp''] \<mapsto> Directory], dirSize = (\<lambda>tree d. 4096), calls = []\<rparr>"

text \<open>An instance over \<open>/tmp/t\<close> with \<open>maxSize = 10\<close> and 5 bytes on the ledger.\<close>

definition sampleInstance :: TemporaryDirectory where
  "sampleInstance =
     \<lparr>pathname = [''tmp'', ''t''], maxSize = 10, sizeof = 5, disposed = False,
      source = Some newCancellationTokenSource\<rparr>"

definition cancelledToken :: CancellationToken where
  "cancelledToken = \<lparr>isCancellationRequested = True\<rparr>"


text \<open>The sample disk with the directory \<open>/tmp/t\<close> of the sample instance in place.\<close>

definition sampleStoreDisk :: filesystem where
  "sampleStoreDisk =
     \<lparr>nodes = [[] \<mapsto> Directory, [''tmp''] \<mapsto> Directory, [''tmp'', ''t''] \<mapsto> Directory],
      dirSize = (\<lambda>tree d. 0), calls = []\<rparr>"


text \<open>
  A disk (directories of size 0) where \<open>/tmp/t\<close> exists already and holds a file \<open>x\<close> of seven
  bytes.
\<close>

definition sampleUsedDisk :: filesystem where
  "sampleUsedDisk =
     \<lparr>nodes = [[] \<mapsto> Directory, [''tmp''] \<mapsto> Directory, [''tmp'', ''t''] \<mapsto> Directory,
               [''tmp'', ''t'', ''x''] \<mapsto> File [1, 2, 3, 4, 5, 6, 7]],
      dirSize = (\<lambda>tree d. 0), calls = []\<rparr>"


text \<open>
  A disk (directories of size 0) where a file \<open>/tmp/big\<close> of eight bytes lies beside the
  place of the storage directory \<open>/tmp/t\<close>.
\<close>

definition sampleSharedDisk :: filesystem where
  "sampleSharedDisk =
     \<lparr>nodes = [[] \<mapsto> Directory, [''tmp''] \<mapsto> Directory,
               [''tmp'', ''big''] \<mapsto> File [1, 2, 3, 4, 5, 6, 7, 8]],
      dirSize = (\<lambda>tree d. 0), calls = []\<rparr>"


text \<open>
  A host whose disk holds the local file \<open>/data/src\<close> (three bytes) and the directory
  \<open>/tmp\<close>; a \<open>file:\<close> locator for that file; download options that carry only a token.
\<close>

definition sampleHost :: host where
  "sampleHost =
     \<lparr>disk = \<lparr>nodes = [[] \<mapsto> Directory, [''tmp''] \<mapsto> Directory, [''data''] \<mapsto> Directory,
                       [''data'', ''src''] \<mapsto> File [7, 8, 9]],
              dirSize = (\<lambda>tree d. 0), calls = []\<rparr>,
      requested = [], consoleLines = 0\<rparr>"

definition sampleFileLocator :: locator where
  "sampleFileLocator = \<lparr>scheme = ''file'', location = [''data'', ''src'']\<rparr>"

definition withToken :: "CancellationToken \<Rightarrow> DownloadOptions" where
  "withToken t = \<lparr>opt_destination = None, opt_token = Some t, opt_timeout = None\<rparr>"

definition silentNetwork :: "locator \<Rightarrow> httpOutcome" where
  "silentNetwork l = NoAnswer"

definition sampleService :: DownloadService where
  "sampleService =
     \<lparr>metadata_source = sampleFileLocator,
      metadata_destination = [''tmp'', ''out''],
      metadata_options = \<lparr>opt_destination = None, opt_token = None, opt_timeout = None\<rparr>,
      downloadSource = newCancellationTokenSource\<rparr>"


text \<open>Memory that holds the given bytes from address 0 on, and zeros after them.\<close>

definition memoryOf :: "byte list \<Rightarrow> memory" where
  "memoryOf bs = (\<lambda>a. if a < length bs then bs ! a else 0)"

definition sharedPlainRuntime :: sharedRuntime where
  "sharedPlainRuntime = \<lparr>env_NO_BUFFER_UTILS = None, required_bufferutil = None\<rparr>"


text \<open>
  The scenario of the specification in memory: the source \<open>[1,2,3,4,5]\<close> at address 0, the key
  \<open>[9,9]\<close> at address 5, a zero-filled output of five bytes at address 7.
\<close>

definition scenarioMemory :: memory where
  "scenarioMemory = memoryOf [1, 2, 3, 4, 5, 9, 9, 0, 0, 0, 0, 0]"

definition scenarioSource :: view where
  "scenarioSource = \<lparr>byteOffset = 0, byteLength = 5\<rparr>"

definition scenarioKey :: view where
  "scenarioKey = \<lparr>byteOffset = 5, byteLength = 2\<rparr>"

definition scenarioOutput :: view where
  "scenarioOutput = \<lparr>byteOffset = 7, byteLength = 5\<rparr>"

text \<open>
  A buffer \<open>b = [1,2,3,4]\<close> at address 0 and a key of four zero bytes at address 4; and a
  buffer \<open>c = [1,2,3,4,5,6,7,8]\<close> at address 0 with the key \<open>c.subarray(3, 7)\<close>.
\<close>

definition overlapMemory :: memory where
  "overlapMemory = memoryOf [1, 2, 3, 4, 0, 0, 0, 0]"

definition overlapBuffer :: view where
  "overlapBuffer = \<lparr>byteOffset = 0, byteLength = 4\<rparr>"

definition zeroKey :: view where
  "zeroKey = \<lparr>byteOffset = 4, byteLength = 4\<rparr>"

definition sliceMemory :: memory where
  "sliceMemory = memoryOf [1, 2, 3, 4, 5, 6, 7, 8]"

definition sliceBuffer :: view where
  "sliceBuffer = \<lparr>byteOffset = 0, byteLength = 8\<rparr>"

definition sliceKey :: view where
  "sliceKey = \<lparr>byteOffset = 3, byteLength = 4\<rparr>"


section \<open>Notions used in the statements\<close>

text \<open>The bytes of the file at a path (none when there is no file there).\<close>

definition fileBytes :: "filesystem \<Rightarrow> path \<Rightarrow> buffer" where
  "fileBytes fs p = (case nodes fs p of Some (File old) \<Rightarrow> old | _ \<Rightarrow> [])"


text \<open>Nothing is left at a path or below it.\<close>

definition gone :: "path \<Rightarrow> filesystem \<Rightarrow> bool" where
  "gone p fs = (\<forall>q. prefix p q \<longrightarrow> nodes fs q = None)"

section \<open>Sequences of operations\<close>

text \<open>
  The mutating operations of a \<open>TemporaryDirectory\<close> with their arguments, and the call of
  one of them. A sequence of settled operations is run from left to right, each on the instance
  and the file system the one before has left, whether it succeeded or failed.
\<close>

datatype operation =
    Write path chunk
  | WriteSync path chunk
  | Append path chunk
  | AppendSync path chunk
  | WriteBinary path chunk "chunk option" "CancellationToken option" "writeOptions option"
  | WriteBinarySync path chunk "chunk option"
  | WriteBinaryStream path "chunk list" "chunk option" "CancellationToken option"
      "writeOptions option"
  | Remove path
  | RemoveSync path
  | Clear
  | Rename path path
  | Copy path path
  | CreateSubdirectory path
  | Dispose

fun perform :: "runtime \<Rightarrow> operation \<Rightarrow> TemporaryDirectory \<Rightarrow> filesystem \<Rightarrow> unit outcome" where
  "perform rt (Write f c) td fs = TemporaryDirectory_write td f c fs"
| "perform rt (WriteSync f c) td fs = TemporaryDirectory_writeSync td f c fs"
| "perform rt (Append f c) td fs = TemporaryDirectory_append td f c fs"
| "perform rt (AppendSync f c) td fs = TemporaryDirectory_appendSync td f c fs"
| "perform rt (WriteBinary f c m t opts) td fs = TemporaryDirectory_writeBinary rt td f c m t opts fs"
| "perform rt (WriteBinarySync f c m) td fs = TemporaryDirectory_writeBinarySync rt td f c m fs"
| "perform rt (WriteBinaryStream f cs m t opts) td fs =
     TemporaryDirectory_writeBinaryStream rt td f cs m t opts fs"
| "perform rt (Remove f) td fs = TemporaryDirectory_remove td f fs"
| "perform rt (RemoveSync f) td fs = TemporaryDirectory_removeSync td f fs"
| "perform rt Clear td fs = TemporaryDirectory_clear td fs"
| "perform rt (Rename a b) td fs = TemporaryDirectory_rename td a b fs"
| "perform rt (Copy a b) td fs = TemporaryDirectory_copy td a b fs"
| "perform rt (CreateSubdirectory n) td fs = TemporaryDirectory_createSubdirectory td n fs"
| "perform rt Dispose td fs = dispose td fs"

fun run :: "runtime \<Rightarrow> operation list \<Rightarrow> TemporaryDirectory \<times> filesystem
    \<Rightarrow> TemporaryDirectory \<times> filesystem" where
  "run rt [] s = s"
| "run rt (op # ops) (td, fs) = run rt ops (snd (perform rt op td fs))"

text \<open>
  The operations that address an entry of the directory \<open>p\<close>: a write whose file name
  resolves to a path strictly below \<open>p\<close>; a removal, a rename or a copy whose (first) name
  resolves to \<open>p\<close> or below. A name such as \<open>"../x"\<close> resolves outside the directory.
\<close>

fun addressesEntry :: "path \<Rightarrow> operation \<Rightarrow> bool" where
  "addressesEntry p (Write f c) = strict_prefix p (join p f)"
| "addressesEntry p (WriteSync f c) = strict_prefix p (join p f)"
| "addressesEntry p (Append f c) = strict_prefix p (join p f)"
| "addressesEntry p (AppendSync f c) = strict_prefix p (join p f)"
| "addressesEntry p (WriteBinary f c m t opts) = strict_prefix p (join p f)"
| "addressesEntry p (WriteBinarySync f c m) = strict_prefix p (join p f)"
| "addressesEntry p (WriteBinaryStream f cs m t opts) = strict_prefix p (join p f)"
| "addressesEntry p (Remove f) = prefix p (join p f)"
| "addressesEntry p (RemoveSync f) = prefix p (join p f)"
| "addressesEntry p (Rename a b) = prefix p (join p a)"
| "addressesEntry p (Copy a b) = prefix p (join p a)"
| "addressesEntry p other = False"

text \<open>
  A path none of whose ancestors (nor itself) is a file, so that a recursive \<open>mkdir\<close> can
  create it.
\<close>

definition noFileOnPath :: "filesystem \<Rightarrow> path \<Rightarrow> bool" where
  "noFileOnPath fs p =
     (\<not> list_ex (\<lambda>q. case nodes fs q of Some (File b) \<Rightarrow> True | _ \<Rightarrow> False) (prefixes p))"

section \<open>Properties of the masking codec\<close>

lemma length_storeByte [simp]: "length (storeByte b j v) = length b"
  by (simp add: storeByte_def)

lemma nth_storeByte:
  "k < length b \<Longrightarrow> storeByte b j v ! k = (if k = j then v else b ! k)"
  by (simp add: storeByte_def)

lemma length_mask_loop [simp]:
  "length (mask_loop src key pd offset len i out) = length out"
proof (induction src key pd offset len i out rule: mask_loop.induct)
  case (1 src key pd offset len i out)
  then show ?case
    by (subst mask_loop.simps) simp
qed

text \<open>The loop in closed form: the bytes of the window are rewritten, the others are kept.\<close>

lemma nth_mask_loop:
  "j < length out \<Longrightarrow>
   mask_loop src key pd offset len i out ! j =
     (if offset + i \<le> j \<and> j < offset + len
      then byteAt src (j - offset) XOR keyByte key pd (j - offset)
      else out ! j)"
proof (induction src key pd offset len i out rule: mask_loop.induct)
  case (1 src key pd offset len i out)
  show ?case
  proof (cases "i < len")
    case True
    have "mask_loop src key pd offset len i out ! j =
          mask_loop src key pd offset len (Suc i)
            (storeByte out (offset + i) (byteAt src i XOR keyByte key pd i)) ! j"
      using True by (subst mask_loop.simps) simp
    also have "\<dots> = (if offset + Suc i \<le> j \<and> j < offset + len
        then byteAt src (j - offset) XOR keyByte key pd (j - offset)
        else storeByte out (offset + i) (byteAt src i XOR keyByte key pd i) ! j)"
      using "1.IH" [OF True] "1.prems" by simp
    also have "\<dots> = (if offset + i \<le> j \<and> j < offset + len
        then byteAt src (j - offset) XOR keyByte key pd (j - offset)
        else out ! j)"
      using "1.prems" True by (auto simp: nth_storeByte)
    finally show ?thesis .
  next
    case False
    then show ?thesis
      by (subst mask_loop.simps) auto
  qed
qed

lemma length_unmask_loop [simp]:
  "length (unmask_loop key pd i buffer) = length buffer"
proof (induction key pd i buffer rule: unmask_loop.induct)
  case (1 key pd i buffer)
  then show ?case
    by (subst unmask_loop.simps) simp
qed

lemma nth_unmask_loop:
  "j < length buffer \<Longrightarrow>
   unmask_loop key pd i buffer ! j =
     (if i \<le> j then (buffer ! j) XOR keyByte key pd j else buffer ! j)"
proof (induction key pd i buffer rule: unmask_loop.induct)
  case (1 key pd i buffer)
  show ?case
  proof (cases "i < length buffer")
    case True
    have "unmask_loop key pd i buffer ! j =
          unmask_loop key pd (Suc i) (buffer[i := (buffer ! i) XOR keyByte key pd i]) ! j"
      using True by (subst unmask_loop.simps) simp
    also have "\<dots> = (if Suc i \<le> j
        then (buffer[i := (buffer ! i) XOR keyByte key pd i] ! j) XOR keyByte key pd j
        else buffer[i := (buffer ! i) XOR keyByte key pd i] ! j)"
      using "1.IH" [OF True] "1.prems" by simp
    also have "\<dots> = (if i \<le> j then (buffer ! j) XOR keyByte key pd j else buffer ! j)"
      using "1.prems" True by (cases "j = i") (auto simp: nth_list_update)
    finally show ?thesis .
  next
    case False
    then show ?thesis
      using "1.prems" by (subst unmask_loop.simps) auto
  qed
qed

lemma length_unsafeMask [simp]:
  "length (unsafeMask src key out offset len p) = length out"
  by (simp add: unsafeMask_def)

lemma nth_unsafeMask:
  "j < length out \<Longrightarrow>
   unsafeMask src key out offset len p ! j =
     (if offset \<le> j \<and> j < offset + len
      then byteAt src (j - offset) XOR keyByte key p (j - offset)
      else out ! j)"
  by (simp add: unsafeMask_def nth_mask_loop)

lemma length_unsafeUnmask [simp]: "length (unsafeUnmask buffer key p) = length buffer"
  by (simp add: unsafeUnmask_def)

lemma nth_unsafeUnmask:
  "j < length buffer \<Longrightarrow> unsafeUnmask buffer key p ! j = (buffer ! j) XOR keyByte key p j"
  by (simp add: unsafeUnmask_def nth_unmask_loop)

text \<open>The key byte written with the plain index formula of the specification.\<close>

lemma keyByte_index:
  "keyByte key p i = byteAt key (if p then i mod length key else i AND 3)"
  by (simp add: keyByte_def byteAt_def)

text \<open>When the caller leaves \<open>avoidBufferUtils\<close> out, or sets it, the reference loop runs.\<close>

lemma maskBuffer_reference:
  "a \<noteq> Some False \<Longrightarrow>
   maskBuffer rt src key out offset len (Some \<lparr>avoidBufferUtils = a, pad = p\<rparr>) =
     unsafeMask src key out offset len (p = Some True)"
  by (cases a) (auto simp: maskBuffer_def normalizeOptions_def Let_def)

lemma unmaskBuffer_reference:
  "a \<noteq> Some False \<Longrightarrow>
   unmaskBuffer rt buffer key (Some \<lparr>avoidBufferUtils = a, pad = p\<rparr>) =
     unsafeUnmask buffer key (p = Some True)"
  by (cases a) (auto simp: unmaskBuffer_def normalizeOptions_def Let_def)

text \<open>
  Every way back to the reference loop: the environment flag, the option, a buffer under the
  threshold, a backend that does not load, a backend that throws.
\<close>

lemma maskBuffer_fallback:
  "NO_BUFFER_UTILS rt = Some ''1'' \<or> a \<noteq> Some False \<or> len < 48 \<or> bufferutil rt = None
     \<or> (\<exists>bu. bufferutil rt = Some bu \<and> bu_mask bu src key out offset len = None) \<Longrightarrow>
   maskBuffer rt src key out offset len (Some \<lparr>avoidBufferUtils = a, pad = p\<rparr>) =
     unsafeMask src key out offset len (p = Some True)"
  by (cases a) (auto simp: maskBuffer_def normalizeOptions_def Let_def)

lemma unmaskBuffer_fallback:
  "NO_BUFFER_UTILS rt = Some ''1'' \<or> a \<noteq> Some False \<or> length buffer < 32 \<or> bufferutil rt = None
     \<or> (\<exists>bu. bufferutil rt = Some bu \<and> bu_unmask bu buffer key = None) \<Longrightarrow>
   unmaskBuffer rt buffer key (Some \<lparr>avoidBufferUtils = a, pad = p\<rparr>) =
     unsafeUnmask buffer key (p = Some True)"
  by (cases a) (auto simp: unmaskBuffer_def normalizeOptions_def Let_def)

text \<open>
  Claim C5. Masking a buffer with a key in padded mode and unmasking the result with the same
  key in padded mode gives the buffer back, for a key of any length (also longer than four
  bytes). The calls are the ones the binary I/O primitives make: the mask is written into a
  fresh buffer of the same length, the unmask is in place.
\<close>

theorem unmask_mask_roundtrip:
  "unmaskBuffer rt (maskBuffer rt b k (alloc (length b)) 0 (length b) ioMaskOptions) k ioMaskOptions
     = b"
proof (rule nth_equalityI)
  show "length (unmaskBuffer rt (maskBuffer rt b k (alloc (length b)) 0 (length b) ioMaskOptions)
          k ioMaskOptions) = length b"
    by (simp add: ioMaskOptions_def maskBuffer_reference unmaskBuffer_reference alloc_def)
next
  fix i
  assume "i < length (unmaskBuffer rt
            (maskBuffer rt b k (alloc (length b)) 0 (length b) ioMaskOptions) k ioMaskOptions)"
  then have i: "i < length b"
    by (simp add: ioMaskOptions_def maskBuffer_reference unmaskBuffer_reference alloc_def)
  then show "unmaskBuffer rt (maskBuffer rt b k (alloc (length b)) 0 (length b) ioMaskOptions)
          k ioMaskOptions ! i = b ! i"
    by (simp add: ioMaskOptions_def maskBuffer_reference unmaskBuffer_reference alloc_def
        nth_unsafeUnmask nth_unsafeMask byteAt_def xor.assoc)
qed

text \<open>The round trip at a key of five bytes.\<close>

theorem unmask_mask_roundtrip_witness:
  "unmaskBuffer plainRuntime
     (maskBuffer plainRuntime [10, 20, 30, 40, 50, 60, 70] [1, 2, 3, 4, 5]
        (alloc (length [10::byte, 20, 30, 40, 50, 60, 70])) 0
        (length [10::byte, 20, 30, 40, 50, 60, 70]) ioMaskOptions)
     [1, 2, 3, 4, 5] ioMaskOptions = [10, 20, 30, 40, 50, 60, 70]"
  by (rule unmask_mask_roundtrip)

text \<open>
  With \<open>avoidBufferUtils: false\<close>, a buffer at or above the threshold, the environment flag
  unset and a backend that loads and returns, the result is the backend's: the \<open>pad\<close> option
  never reaches it.
\<close>

lemma maskBuffer_accelerated:
  "NO_BUFFER_UTILS rt \<noteq> Some ''1'' \<Longrightarrow> 48 \<le> len \<Longrightarrow> bufferutil rt = Some bu \<Longrightarrow>
   bu_mask bu src key out offset len = Some r \<Longrightarrow>
   maskBuffer rt src key out offset len (Some \<lparr>avoidBufferUtils = Some False, pad = p\<rparr>) = r"
  by (simp add: maskBuffer_def normalizeOptions_def Let_def)

lemma unmaskBuffer_accelerated:
  "NO_BUFFER_UTILS rt \<noteq> Some ''1'' \<Longrightarrow> 32 \<le> length buffer \<Longrightarrow> bufferutil rt = Some bu \<Longrightarrow>
   bu_unmask bu buffer key = Some r \<Longrightarrow>
   unmaskBuffer rt buffer key (Some \<lparr>avoidBufferUtils = Some False, pad = p\<rparr>) = r"
  by (simp add: unmaskBuffer_def normalizeOptions_def Let_def)

text \<open>
  Claim C6, at the input where the code departs from it: 48 zero bytes masked with the
  five-byte key \<open>[1,2,3,4,5]\<close> in padded mode, \<open>avoidBufferUtils: false\<close>, the backend
  installed. Byte 4 of the accelerated result is \<open>key[4 & 3] = 1\<close>; the reference loop gives
  \<open>key[4 mod 5] = 5\<close>. The same for \<open>unmask\<close> on 32 bytes.
\<close>

theorem accelerated_backend_ignores_pad:
  "maskBuffer \<lparr>NO_BUFFER_UTILS = None, bufferutil = Some bufferutilPackage\<rparr>
       (alloc 48) [1, 2, 3, 4, 5] (alloc 48) 0 48
       (Some \<lparr>avoidBufferUtils = Some False, pad = Some True\<rparr>) ! 4 = 1
   \<and> unsafeMask (alloc 48) [1, 2, 3, 4, 5] (alloc 48) 0 48 True ! 4 = 5
   \<and> unmaskBuffer \<lparr>NO_BUFFER_UTILS = None, bufferutil = Some bufferutilPackage\<rparr>
       (alloc 32) [1, 2, 3, 4, 5] (Some \<lparr>avoidBufferUtils = Some False, pad = Some True\<rparr>) ! 4 = 1
   \<and> unsafeUnmask (alloc 32) [1, 2, 3, 4, 5] True ! 4 = 5"
  by code_simp

section \<open>The masking loop on shared memory\<close>

lemma loadKey_index: "loadKey m key pd i = load m key (keyIndex key pd i)"
  by (simp add: loadKey_def keyIndex_def load_def)

lemma readsBeforeStores_iff:
  "readsBeforeStores src key pd out offset len \<longleftrightarrow>
     (\<forall>j<len. \<forall>i<j. \<forall>a. storedAddress out offset i = Some a \<longrightarrow>
         sourceAddress src j \<noteq> Some a \<and> keyAddress key pd j \<noteq> Some a)"
  by (auto simp: readsBeforeStores_def list_all_iff split: option.splits)

text \<open>An address no remaining step stores to keeps its byte.\<close>

lemma mask_loop_shared_frame:
  "(\<forall>k. i \<le> k \<and> k < len \<longrightarrow> storedAddress out offset k \<noteq> Some a) \<Longrightarrow>
   mask_loop_shared src key pd out offset len i m a = m a"
proof (induction src key pd out offset len i m rule: mask_loop_shared.induct)
  case (1 src key pd out offset len i m)
  show ?case
  proof (cases "i < len")
    case True
    let ?m1 = "store m out (offset + i) (load m src i XOR loadKey m key pd i)"
    have "mask_loop_shared src key pd out offset len i m a
        = mask_loop_shared src key pd out offset len (Suc i) ?m1 a"
      using True by (subst mask_loop_shared.simps) simp
    also have "\<dots> = ?m1 a"
      using "1.IH" [OF True] "1.prems" by simp
    also have "\<dots> = m a"
      using "1.prems" [rule_format, of i] True by (auto simp: store_def storedAddress_def)
    finally show ?thesis .
  next
    case False
    then show ?thesis by (subst mask_loop_shared.simps) simp
  qed
qed

text \<open>
  The byte a step stores is the one computed from the memory the loop started with, as long as
  no step reads what an earlier one stored.
\<close>

lemma mask_loop_shared_window:
  assumes "\<forall>j<len. \<forall>k. i \<le> k \<and> k < j \<longrightarrow> (\<forall>a. storedAddress out offset k = Some a \<longrightarrow>
            sourceAddress src j \<noteq> Some a \<and> keyAddress key pd j \<noteq> Some a)"
    and "i \<le> j" "j < len" "storedAddress out offset j = Some a"
  shows "mask_loop_shared src key pd out offset len i m a
     = load m src j XOR loadKey m key pd j"
  using assms
proof (induction src key pd out offset len i m rule: mask_loop_shared.induct)
  case (1 src key pd out offset len i m)
  from "1.prems"(2,3) have True: "i < len" by simp
  let ?m1 = "store m out (offset + i) (load m src i XOR loadKey m key pd i)"
  have unfold: "mask_loop_shared src key pd out offset len i m a
      = mask_loop_shared src key pd out offset len (Suc i) ?m1 a"
    using True by (subst mask_loop_shared.simps) simp
  show ?case
  proof (cases "j = i")
    case True
    have "\<forall>k. Suc i \<le> k \<and> k < len \<longrightarrow> storedAddress out offset k \<noteq> Some a"
      using "1.prems"(4) True by (auto simp: storedAddress_def split: if_splits)
    then have "mask_loop_shared src key pd out offset len (Suc i) ?m1 a = ?m1 a"
      by (rule mask_loop_shared_frame)
    also have "\<dots> = load m src j XOR loadKey m key pd j"
      using "1.prems"(4) True by (auto simp: store_def storedAddress_def split: if_splits)
    finally show ?thesis using unfold by simp
  next
    case False
    with "1.prems"(2) have lt: "i < j" and le: "Suc i \<le> j" by simp_all
    have later: "\<forall>j<len. \<forall>k. Suc i \<le> k \<and> k < j \<longrightarrow> (\<forall>a. storedAddress out offset k = Some a \<longrightarrow>
            sourceAddress src j \<noteq> Some a \<and> keyAddress key pd j \<noteq> Some a)"
      using "1.prems"(1) by (meson Suc_leD)
    have "mask_loop_shared src key pd out offset len (Suc i) ?m1 a
        = load ?m1 src j XOR loadKey ?m1 key pd j"
      using "1.IH" [OF True later le "1.prems"(3,4)] .
    moreover have "load ?m1 src j = load m src j"
      using "1.prems"(1) [rule_format, of j i] "1.prems"(3) lt
      by (auto simp: load_def store_def storedAddress_def sourceAddress_def split: if_splits)
    moreover have "loadKey ?m1 key pd j = loadKey m key pd j"
      using "1.prems"(1) [rule_format, of j i] "1.prems"(3) lt
      by (auto simp: loadKey_index load_def store_def storedAddress_def keyAddress_def
          split: if_splits)
    ultimately show ?thesis using unfold by simp
  qed
qed

text \<open>With \<open>avoidBufferUtils\<close> left out or set, the reference loop runs.\<close>

lemma maskBuffer_shared_reference:
  "a \<noteq> Some False \<Longrightarrow>
   maskBuffer_shared rt m src key out offset len (Some \<lparr>avoidBufferUtils = a, pad = p\<rparr>) =
     unsafeMask_shared m src key out offset len (p = Some True)"
  by (cases a) (auto simp: maskBuffer_shared_def normalizeOptions_def Let_def)

text \<open>
  Two cases in which no step reads what an earlier step stored: the output shares no byte with
  the source and the key; or the output is the source buffer itself, written from offset 0 (step
  \<open>i\<close> reads and stores the same byte), with the key elsewhere.
\<close>

lemma apart_readsBeforeStores:
  assumes "apart out src" "apart out key"
  shows "readsBeforeStores src key pd out offset len"
  using assms
  by (auto simp: readsBeforeStores_iff apart_def storedAddress_def sourceAddress_def
      keyAddress_def split: if_splits)

lemma in_place_readsBeforeStores:
  assumes "apart b key"
  shows "readsBeforeStores b key pd b 0 len"
  using assms
  by (auto simp: readsBeforeStores_iff apart_def storedAddress_def sourceAddress_def
      keyAddress_def split: if_splits)

text \<open>
  Claim C4, as the code has it. The claim holds for buffers that may share memory as long as no
  step of the loop reads a byte that an earlier step has stored. Then
  \<open>mask(source, key, output, offset, length, {pad})\<close> leaves at \<open>output[offset + i]\<close>, for every
  \<open>i\<close> below \<open>length\<close> with \<open>offset + i\<close> inside the output,
  \<open>source[i] XOR key[pad ? i mod key.length : i AND 3]\<close> with the source and the key as they
  were before the call (a read outside a buffer counts as 0, as \<open>^\<close> makes it), and every
  other byte of memory, in the output or elsewhere, is as it was.
\<close>

theorem mask_writes_the_window:
  assumes "readsBeforeStores src key (p = Some True) out offset len"
  shows "(\<forall>i<len. offset + i < byteLength out \<longrightarrow>
            maskBuffer_shared rt m src key out offset len
                (Some \<lparr>avoidBufferUtils = None, pad = p\<rparr>) (byteOffset out + (offset + i))
              = load m src i
                  XOR load m key (if p = Some True then i mod byteLength key else i AND 3))
       \<and> (\<forall>a. (\<forall>i<len. offset + i < byteLength out \<longrightarrow> a \<noteq> byteOffset out + (offset + i)) \<longrightarrow>
            maskBuffer_shared rt m src key out offset len
                (Some \<lparr>avoidBufferUtils = None, pad = p\<rparr>) a = m a)"
proof (intro conjI allI impI)
  fix i
  assume i: "i < len" and inside: "offset + i < byteLength out"
  have cf: "\<forall>j<len. \<forall>k. 0 \<le> k \<and> k < j \<longrightarrow> (\<forall>a. storedAddress out offset k = Some a \<longrightarrow>
            sourceAddress src j \<noteq> Some a \<and> keyAddress key (p = Some True) j \<noteq> Some a)"
    using assms by (simp add: readsBeforeStores_iff)
  have st: "storedAddress out offset i = Some (byteOffset out + (offset + i))"
    using inside by (simp add: storedAddress_def)
  have "mask_loop_shared src key (p = Some True) out offset len 0 m (byteOffset out + (offset + i))
      = load m src i XOR loadKey m key (p = Some True) i"
    using cf _ i st by (rule mask_loop_shared_window) simp
  then show "maskBuffer_shared rt m src key out offset len
                (Some \<lparr>avoidBufferUtils = None, pad = p\<rparr>) (byteOffset out + (offset + i))
              = load m src i
                  XOR load m key (if p = Some True then i mod byteLength key else i AND 3)"
    by (simp add: maskBuffer_shared_reference unsafeMask_shared_def loadKey_index keyIndex_def)
next
  fix a
  assume "\<forall>i<len. offset + i < byteLength out \<longrightarrow> a \<noteq> byteOffset out + (offset + i)"
  then have "\<forall>k. 0 \<le> k \<and> k < len \<longrightarrow> storedAddress out offset k \<noteq> Some a"
    by (auto simp: storedAddress_def)
  then have "mask_loop_shared src key (p = Some True) out offset len 0 m a = m a"
    by (rule mask_loop_shared_frame)
  then show "maskBuffer_shared rt m src key out offset len
                (Some \<lparr>avoidBufferUtils = None, pad = p\<rparr>) a = m a"
    by (simp add: maskBuffer_shared_reference unsafeMask_shared_def)
qed

text \<open>
  The scenario of the specification, masking \<open>[1,2,3,4,5]\<close> with the key \<open>[9,9]\<close> in padded
  mode into a separate output, and the same masking in place, with the source as the output.
\<close>

theorem mask_writes_the_window_witness:
  "maskBuffer_shared sharedPlainRuntime scenarioMemory scenarioSource scenarioKey scenarioOutput 0 5
       (Some \<lparr>avoidBufferUtils = None, pad = Some True\<rparr>) (byteOffset scenarioOutput + (0 + 4)) = 12
   \<and> maskBuffer_shared sharedPlainRuntime scenarioMemory scenarioSource scenarioKey scenarioSource 0 5
       (Some \<lparr>avoidBufferUtils = None, pad = Some True\<rparr>) (byteOffset scenarioSource + (0 + 4)) = 12"
proof -
  have order: "readsBeforeStores scenarioSource scenarioKey (Some True = Some True) scenarioOutput 0 5"
    "readsBeforeStores scenarioSource scenarioKey (Some True = Some True) scenarioSource 0 5"
    by code_simp+
  have inside: "(4::nat) < 5" "0 + (4::nat) < byteLength scenarioOutput"
    "0 + (4::nat) < byteLength scenarioSource"
    by (simp_all add: scenarioOutput_def scenarioSource_def)
  have byte: "load scenarioMemory scenarioSource 4
      XOR load scenarioMemory scenarioKey
            (if Some True = Some True then 4 mod byteLength scenarioKey else 4 AND 3) = 12"
    by code_simp
  from mask_writes_the_window [OF order(1), of sharedPlainRuntime scenarioMemory,
      THEN conjunct1, rule_format, OF inside(1,2)]
    mask_writes_the_window [OF order(2), of sharedPlainRuntime scenarioMemory,
      THEN conjunct1, rule_format, OF inside(1,3)]
  show ?thesis
    by (simp only: byte)
qed

text \<open>
  The claim as stated, for every source and output buffer, fails when the output is the source
  buffer and the offset is not 0. With \<open>b = [1,2,3,4]\<close> and a zero key,
  \<open>mask(b, key, b, 1, 3)\<close> leaves \<open>b = [1,1,1,1]\<close>: step 1 reads \<open>b[1]\<close> after step 0 has
  stored to it, so \<open>b[2]\<close> is 1 and not \<open>2 XOR 0\<close>. With \<open>c = [1,2,3,4,5,6,7,8]\<close> and the
  key \<open>c.subarray(3, 7)\<close>, \<open>mask(c, key, c, 1, 3)\<close> leaves \<open>c = [1,5,0,6,5,6,7,8]\<close>: the
  formula gives 7 for \<open>c[2]\<close> on the bytes before the call, where the code leaves 0, and 7
  for \<open>c[1]\<close> on the bytes after the call, where the code leaves 5.
\<close>

theorem mask_onto_its_source_counterexample:
  "shown (maskBuffer_shared sharedPlainRuntime overlapMemory overlapBuffer zeroKey overlapBuffer 1 3
       (Some \<lparr>avoidBufferUtils = None, pad = None\<rparr>)) overlapBuffer = [1, 1, 1, 1]
   \<and> load overlapMemory overlapBuffer 1 XOR load overlapMemory zeroKey (1 AND 3) = 2
   \<and> shown (maskBuffer_shared sharedPlainRuntime sliceMemory sliceBuffer sliceKey sliceBuffer 1 3
       (Some \<lparr>avoidBufferUtils = None, pad = None\<rparr>)) sliceBuffer = [1, 5, 0, 6, 5, 6, 7, 8]
   \<and> load sliceMemory sliceBuffer 1 XOR load sliceMemory sliceKey (1 AND 3) = 7
   \<and> load (maskBuffer_shared sharedPlainRuntime sliceMemory sliceBuffer sliceKey sliceBuffer 1 3
             (Some \<lparr>avoidBufferUtils = None, pad = None\<rparr>)) sliceBuffer 0
       XOR load (maskBuffer_shared sharedPlainRuntime sliceMemory sliceBuffer sliceKey sliceBuffer 1 3
             (Some \<lparr>avoidBufferUtils = None, pad = None\<rparr>)) sliceKey (0 AND 3) = 7"
  by code_simp

text \<open>
  When the output shares no byte with the source and the key, the loop on memory is the loop on
  separate buffers: the output shows afterwards what \<open>unsafeMask\<close> returns on the bytes the
  three buffers showed before. The binary I/O primitives mask into a fresh \<open>Buffer.alloc\<close>,
  which is this case.
\<close>

lemma byteAt_shown: "byteAt (shown m b) i = load m b i"
  by (simp add: byteAt_def shown_def load_def)

lemma keyByte_shown: "keyByte (shown m key) pd i = loadKey m key pd i"
  by (simp add: keyByte_def loadKey_def byteAt_shown) (simp add: shown_def)

lemma unsafeMask_shared_separate:
  assumes "apart out src" "apart out key"
  shows "shown (unsafeMask_shared m src key out offset len pd) out
     = unsafeMask (shown m src) (shown m key) (shown m out) offset len pd"
proof (rule nth_equalityI)
  show "length (shown (unsafeMask_shared m src key out offset len pd) out)
      = length (unsafeMask (shown m src) (shown m key) (shown m out) offset len pd)"
    by (simp add: shown_def)
next
  fix j
  assume "j < length (shown (unsafeMask_shared m src key out offset len pd) out)"
  then have j: "j < byteLength out"
    by (simp add: shown_def)
  have order: "\<forall>j<len. \<forall>k. 0 \<le> k \<and> k < j \<longrightarrow> (\<forall>a. storedAddress out offset k = Some a \<longrightarrow>
            sourceAddress src j \<noteq> Some a \<and> keyAddress key pd j \<noteq> Some a)"
    using apart_readsBeforeStores [OF assms, of pd offset len]
    by (simp add: readsBeforeStores_iff)
  show "shown (unsafeMask_shared m src key out offset len pd) out ! j
      = unsafeMask (shown m src) (shown m key) (shown m out) offset len pd ! j"
  proof (cases "offset \<le> j \<and> j < offset + len")
    case True
    then have i: "j - offset < len" and at: "offset + (j - offset) = j"
      by auto
    have st: "storedAddress out offset (j - offset) = Some (byteOffset out + j)"
      using j at by (simp add: storedAddress_def)
    have "mask_loop_shared src key pd out offset len 0 m (byteOffset out + j)
        = load m src (j - offset) XOR loadKey m key pd (j - offset)"
      using order _ i st by (rule mask_loop_shared_window) simp
    with True j show ?thesis
      by (simp add: shown_def unsafeMask_shared_def nth_unsafeMask byteAt_shown
          keyByte_shown [unfolded shown_def] byteAt_shown [unfolded shown_def])
  next
    case False
    then have "\<forall>k. 0 \<le> k \<and> k < len \<longrightarrow> storedAddress out offset k \<noteq> Some (byteOffset out + j)"
      by (auto simp: storedAddress_def)
    then have "mask_loop_shared src key pd out offset len 0 m (byteOffset out + j)
        = m (byteOffset out + j)"
      by (rule mask_loop_shared_frame)
    with False j show ?thesis
      by (auto simp: shown_def unsafeMask_shared_def nth_unsafeMask)
  qed
qed


section \<open>Admission control of the temporary storage\<close>

lemma write_overflow:
  "chunkToBuffer contents = Inr buffer \<Longrightarrow> sizeof td + int (length buffer) > maxSize td \<Longrightarrow>
   TemporaryDirectory_write td filename contents fs = (Inl (Exception ERR_BUFFER_OVERFLOW), td, fs)"
  by (simp add: TemporaryDirectory_write_def)

lemma write_admitted:
  "chunkToBuffer contents = Inr buffer \<Longrightarrow> sizeof td + int (length buffer) \<le> maxSize td \<Longrightarrow>
   fs_writeFile (join (pathname td) filename) buffer fs = (Inr (), fs1) \<Longrightarrow>
   TemporaryDirectory_write td filename contents fs
     = (Inr (), td\<lparr>sizeof := sizeof td + int (length buffer)\<rparr>, fs1)"
  by (simp add: TemporaryDirectory_write_def)

lemma append_overflow:
  "chunkToBuffer contents = Inr buffer \<Longrightarrow> sizeof td + int (length buffer) > maxSize td \<Longrightarrow>
   TemporaryDirectory_append td filename contents fs = (Inl (Exception ERR_BUFFER_OVERFLOW), td, fs)"
  by (simp add: TemporaryDirectory_append_def)

lemma append_admitted:
  "chunkToBuffer contents = Inr buffer \<Longrightarrow> sizeof td + int (length buffer) \<le> maxSize td \<Longrightarrow>
   fs_appendFile (join (pathname td) filename) buffer fs = (Inr (), fs1) \<Longrightarrow>
   TemporaryDirectory_append td filename contents fs
     = (Inr (), td\<lparr>sizeof := sizeof td + int (length buffer)\<rparr>, fs1)"
  by (simp add: TemporaryDirectory_append_def)

text \<open>The overflow error is not a cancellation, so the handler of \<open>writeBinary\<close> unlinks nothing.\<close>

lemma writeBinary_overflow:
  "chunkToBuffer contents = Inr buffer \<Longrightarrow> sizeof td + int (length buffer) > maxSize td \<Longrightarrow>
   defaultToken td tok = Inr t \<Longrightarrow>
   TemporaryDirectory_writeBinary rt td filename contents msk tok options fs
     = (Inl (Exception ERR_BUFFER_OVERFLOW), td, fs)"
  by (simp add: TemporaryDirectory_writeBinary_def rethrow_def isKnownError_def)

lemma writeBinary_admitted:
  "chunkToBuffer contents = Inr buffer \<Longrightarrow> sizeof td + int (length buffer) \<le> maxSize td \<Longrightarrow>
   defaultToken td tok = Inr t \<Longrightarrow>
   writeBinary rt (join (pathname td) filename) contents msk (Some t) fs = (Inr (), fs1) \<Longrightarrow>
   TemporaryDirectory_writeBinary rt td filename contents msk tok options fs
     = (Inr (), td\<lparr>sizeof := sizeof td + int (length buffer)\<rparr>, fs1)"
  by (simp add: TemporaryDirectory_writeBinary_def)

lemma writeBinarySync_overflow:
  "chunkToBuffer contents = Inr buffer \<Longrightarrow> sizeof td + int (length buffer) > maxSize td \<Longrightarrow>
   TemporaryDirectory_writeBinarySync rt td filename contents msk fs
     = (Inl (Exception ERR_BUFFER_OVERFLOW), td, fs)"
  by (simp add: TemporaryDirectory_writeBinarySync_def)

lemma writeBinarySync_admitted:
  "chunkToBuffer contents = Inr buffer \<Longrightarrow> sizeof td + int (length buffer) \<le> maxSize td \<Longrightarrow>
   writeBinarySync rt (join (pathname td) filename) contents msk fs = (Inr (), fs1) \<Longrightarrow>
   TemporaryDirectory_writeBinarySync rt td filename contents msk fs
     = (Inr (), td\<lparr>sizeof := sizeof td + int (length buffer)\<rparr>, fs1)"
  by (simp add: TemporaryDirectory_writeBinarySync_def)

text \<open>
  Claim C1, as the code has it. Let the content coerce to a buffer of \<open>n\<close> bytes. For \<open>write\<close>,
  \<open>writeSync\<close>, \<open>append\<close>, \<open>appendSync\<close> and \<open>writeBinarySync\<close>, and for \<open>writeBinary\<close> when a
  token is passed or the instance still has its cancellation source (it has not been
  disposed): if \<open>sizeof + n > maxSize\<close> the call fails with BufferOverflow and returns the
  instance and the file system as they were (no call of a file-system primitive is recorded,
  \<open>sizeof\<close> is unchanged); if \<open>sizeof + n \<le> maxSize\<close> and the underlying write succeeds, the
  call succeeds and \<open>sizeof\<close> has grown by exactly \<open>n\<close>.
\<close>

theorem buffered_write_admission:
  assumes "chunkToBuffer contents = Inr buffer"
  shows
    "(sizeof td + int (length buffer) > maxSize td \<longrightarrow>
        TemporaryDirectory_write td filename contents fs
          = (Inl (Exception ERR_BUFFER_OVERFLOW), td, fs)
      \<and> TemporaryDirectory_writeSync td filename contents fs
          = (Inl (Exception ERR_BUFFER_OVERFLOW), td, fs)
      \<and> TemporaryDirectory_append td filename contents fs
          = (Inl (Exception ERR_BUFFER_OVERFLOW), td, fs)
      \<and> TemporaryDirectory_appendSync td filename contents fs
          = (Inl (Exception ERR_BUFFER_OVERFLOW), td, fs)
      \<and> TemporaryDirectory_writeBinarySync rt td filename contents msk fs
          = (Inl (Exception ERR_BUFFER_OVERFLOW), td, fs)
      \<and> (\<forall>t. defaultToken td tok = Inr t \<longrightarrow>
            TemporaryDirectory_writeBinary rt td filename contents msk tok options fs
              = (Inl (Exception ERR_BUFFER_OVERFLOW), td, fs)))
     \<and> (sizeof td + int (length buffer) \<le> maxSize td \<longrightarrow>
        (\<forall>fs1. fs_writeFile (join (pathname td) filename) buffer fs = (Inr (), fs1) \<longrightarrow>
            TemporaryDirectory_write td filename contents fs
              = (Inr (), td\<lparr>sizeof := sizeof td + int (length buffer)\<rparr>, fs1)
          \<and> TemporaryDirectory_writeSync td filename contents fs
              = (Inr (), td\<lparr>sizeof := sizeof td + int (length buffer)\<rparr>, fs1))
      \<and> (\<forall>fs1. fs_appendFile (join (pathname td) filename) buffer fs = (Inr (), fs1) \<longrightarrow>
            TemporaryDirectory_append td filename contents fs
              = (Inr (), td\<lparr>sizeof := sizeof td + int (length buffer)\<rparr>, fs1)
          \<and> TemporaryDirectory_appendSync td filename contents fs
              = (Inr (), td\<lparr>sizeof := sizeof td + int (length buffer)\<rparr>, fs1))
      \<and> (\<forall>fs1. writeBinarySync rt (join (pathname td) filename) contents msk fs = (Inr (), fs1) \<longrightarrow>
            TemporaryDirectory_writeBinarySync rt td filename contents msk fs
              = (Inr (), td\<lparr>sizeof := sizeof td + int (length buffer)\<rparr>, fs1))
      \<and> (\<forall>t fs1. defaultToken td tok = Inr t
              \<and> writeBinary rt (join (pathname td) filename) contents msk (Some t) fs = (Inr (), fs1) \<longrightarrow>
            TemporaryDirectory_writeBinary rt td filename contents msk tok options fs
              = (Inr (), td\<lparr>sizeof := sizeof td + int (length buffer)\<rparr>, fs1)))"
proof (intro conjI impI allI)
  assume over: "sizeof td + int (length buffer) > maxSize td"
  show "TemporaryDirectory_write td filename contents fs
          = (Inl (Exception ERR_BUFFER_OVERFLOW), td, fs)"
    using assms over by (rule write_overflow)
  then show "TemporaryDirectory_writeSync td filename contents fs
          = (Inl (Exception ERR_BUFFER_OVERFLOW), td, fs)"
    by (simp add: TemporaryDirectory_writeSync_def)
  show "TemporaryDirectory_append td filename contents fs
          = (Inl (Exception ERR_BUFFER_OVERFLOW), td, fs)"
    using assms over by (rule append_overflow)
  then show "TemporaryDirectory_appendSync td filename contents fs
          = (Inl (Exception ERR_BUFFER_OVERFLOW), td, fs)"
    by (simp add: TemporaryDirectory_appendSync_def)
  show "TemporaryDirectory_writeBinarySync rt td filename contents msk fs
          = (Inl (Exception ERR_BUFFER_OVERFLOW), td, fs)"
    using assms over by (rule writeBinarySync_overflow)
  fix t
  assume "defaultToken td tok = Inr t"
  with assms over
  show "TemporaryDirectory_writeBinary rt td filename contents msk tok options fs
          = (Inl (Exception ERR_BUFFER_OVERFLOW), td, fs)"
    by (rule writeBinary_overflow)
next
  fix fs1
  assume fits: "sizeof td + int (length buffer) \<le> maxSize td"
    and w: "fs_writeFile (join (pathname td) filename) buffer fs = (Inr (), fs1)"
  show "TemporaryDirectory_write td filename contents fs
          = (Inr (), td\<lparr>sizeof := sizeof td + int (length buffer)\<rparr>, fs1)"
    using assms fits w by (rule write_admitted)
  then show "TemporaryDirectory_writeSync td filename contents fs
          = (Inr (), td\<lparr>sizeof := sizeof td + int (length buffer)\<rparr>, fs1)"
    by (simp add: TemporaryDirectory_writeSync_def)
next
  fix fs1
  assume fits: "sizeof td + int (length buffer) \<le> maxSize td"
    and w: "fs_appendFile (join (pathname td) filename) buffer fs = (Inr (), fs1)"
  show "TemporaryDirectory_append td filename contents fs
          = (Inr (), td\<lparr>sizeof := sizeof td + int (length buffer)\<rparr>, fs1)"
    using assms fits w by (rule append_admitted)
  then show "TemporaryDirectory_appendSync td filename contents fs
          = (Inr (), td\<lparr>sizeof := sizeof td + int (length buffer)\<rparr>, fs1)"
    by (simp add: TemporaryDirectory_appendSync_def)
next
  fix fs1
  assume fits: "sizeof td + int (length buffer) \<le> maxSize td"
    and w: "writeBinarySync rt (join (pathname td) filename) contents msk fs = (Inr (), fs1)"
  show "TemporaryDirectory_writeBinarySync rt td filename contents msk fs
          = (Inr (), td\<lparr>sizeof := sizeof td + int (length buffer)\<rparr>, fs1)"
    using assms fits w by (rule writeBinarySync_admitted)
next
  fix t fs1
  assume fits: "sizeof td + int (length buffer) \<le> maxSize td"
    and w: "defaultToken td tok = Inr t
          \<and> writeBinary rt (join (pathname td) filename) contents msk (Some t) fs = (Inr (), fs1)"
  show "TemporaryDirectory_writeBinary rt td filename contents msk tok options fs
          = (Inr (), td\<lparr>sizeof := sizeof td + int (length buffer)\<rparr>, fs1)"
    using assms fits w by (auto intro: writeBinary_admitted)
qed

text \<open>
  The scenario of the specification on the sample instance (\<open>maxSize = 10\<close>, 5 bytes
  written): \<open>write("b", "123456")\<close> fails with BufferOverflow and changes nothing, while
  \<open>write("c", "12345")\<close> is admitted and brings \<open>sizeof\<close> to 10.
\<close>

theorem buffered_write_admission_witness:
  "TemporaryDirectory_write sampleInstance [''b''] (Text ''123456'') sampleStoreDisk
       = (Inl (Exception ERR_BUFFER_OVERFLOW), sampleInstance, sampleStoreDisk)
   \<and> fst (TemporaryDirectory_write sampleInstance [''c''] (Text ''12345'') sampleStoreDisk) = Inr ()
   \<and> sizeof (fst (snd (TemporaryDirectory_write sampleInstance [''c''] (Text ''12345'')
        sampleStoreDisk))) = 10"
proof -
  have coerce6: "chunkToBuffer (Text ''123456'') = Inr (map of_char ''123456'')"
    by (simp add: chunkToBuffer_def)
  have over: "sizeof sampleInstance + int (length (map of_char ''123456'' :: buffer))
      > maxSize sampleInstance"
    by (simp add: sampleInstance_def)
  from buffered_write_admission [OF coerce6, of sampleInstance "[''b'']" sampleStoreDisk,
      THEN conjunct1] over
  have rejected: "TemporaryDirectory_write sampleInstance [''b''] (Text ''123456'') sampleStoreDisk
       = (Inl (Exception ERR_BUFFER_OVERFLOW), sampleInstance, sampleStoreDisk)"
    by blast
  have coerce5: "chunkToBuffer (Text ''12345'') = Inr (map of_char ''12345'')"
    by (simp add: chunkToBuffer_def)
  have fits: "sizeof sampleInstance + int (length (map of_char ''12345'' :: buffer))
      \<le> maxSize sampleInstance"
    by (simp add: sampleInstance_def)
  let ?w = "fs_writeFile (join (pathname sampleInstance) [''c'']) (map of_char ''12345'')
      sampleStoreDisk"
  have "fst ?w = Inr ()"
    by (simp add: fs_writeFile_def notWritable_def join_def normalizePath_def sampleInstance_def sampleStoreDisk_def)
  then have written: "?w = (Inr (), snd ?w)"
    by (metis prod.collapse)
  from buffered_write_admission [OF coerce5, of sampleInstance "[''c'']" sampleStoreDisk,
      THEN conjunct2] fits written
  have "TemporaryDirectory_write sampleInstance [''c''] (Text ''12345'') sampleStoreDisk
      = (Inr (), sampleInstance\<lparr>sizeof := sizeof sampleInstance
            + int (length (map of_char ''12345'' :: buffer))\<rparr>, snd ?w)"
    by blast
  with rejected show ?thesis
    by (simp add: sampleInstance_def)
qed

text \<open>
  The claim as stated fails for \<open>writeBinary\<close> on a disposed instance when no token is
  passed: with \<open>maxSize = 10\<close> and content of 11 bytes the call fails with a \<open>TypeError\<close> (the
  default token is read from the source, which \<open>dispose\<close> has set to \<open>null\<close>), not with
  BufferOverflow.
\<close>

theorem writeBinary_after_dispose_counterexample:
  "(case create [''tmp'', ''t''] (Some \<lparr>opt_maxSize = Some 10\<rparr>) sampleDisk of
      (Inr td, fs1) \<Rightarrow>
        (case dispose td fs1 of
           (r, td2, fs2) \<Rightarrow>
             chunkToBuffer (Text ''12345678901'') = Inr (map of_char ''12345678901'')
             \<and> sizeof td2 + int (length (map of_char ''12345678901'' :: buffer)) > maxSize td2
             \<and> TemporaryDirectory_writeBinary plainRuntime td2 [''a''] (Text ''12345678901'')
                  None None None fs2 = (Inl TypeError, td2, fs2))
    | (Inl e, fs1) \<Rightarrow> False)"
  by (simp add: create_def ensureDir_def fs_stat_def fs_mkdir_def sampleDisk_def called_def
      construct_def dispose_def rimraf_def fs_lstat_def removeTree_def chunkToBuffer_def
      TemporaryDirectory_writeBinary_def defaultToken_def prefixes_snoc)


section \<open>Streamed writes\<close>

text \<open>A chunk masked for writing, byte by byte, when the mask coerces to a non-empty key.\<close>

lemma maskForWrite_padded:
  assumes "truthy msk" "chunkToBuffer (the msk) = Inr key" "key \<noteq> []"
  shows "maskForWrite rt msk b = Inr (map (\<lambda>i. (b ! i) XOR (key ! (i mod length key))) [0..<length b])"
proof -
  have "unsafeMask b key (alloc (length b)) 0 (length b) True
      = map (\<lambda>i. (b ! i) XOR (key ! (i mod length key))) [0..<length b]"
    using assms(3)
    by (intro nth_equalityI) (simp_all add: alloc_def nth_unsafeMask keyByte_def byteAt_def)
  then show ?thesis
    using assms(1,2) by (simp add: maskForWrite_def ioMaskOptions_def maskBuffer_reference)
qed

lemma length_maskForWrite:
  "maskForWrite rt msk b = Inr b' \<Longrightarrow> length b' = length b"
  by (auto simp: maskForWrite_def ioMaskOptions_def maskBuffer_reference alloc_def
      split: if_splits sum.splits)

lemma nodes_streamWrite:
  "nodes (fs_streamWrite p data fs) = (nodes fs)(p \<mapsto> File (fileBytes fs p @ data))"
  by (simp add: fs_streamWrite_def called_def fileBytes_def)

lemma fileBytes_streamWrite [simp]:
  "fileBytes (fs_streamWrite p data fs) p = fileBytes fs p @ data"
  by (simp add: fileBytes_def nodes_streamWrite)

lemma writeChunks_keeps_file:
  "nodes fs p = Some (File x) \<Longrightarrow>
   nodes (snd (writeChunks rt p msk content w fs)) p
     = Some (File (fileBytes (snd (writeChunks rt p msk content w fs)) p))"
proof (induction content arbitrary: w fs x)
  case Nil
  then show ?case by (simp add: fileBytes_def)
next
  case (Cons c content)
  show ?case
  proof (cases "chunkToBuffer c")
    case (Inl e)
    then show ?thesis using Cons.prems by (simp add: fileBytes_def)
  next
    case (Inr b)
    show ?thesis
    proof (cases "maskForWrite rt msk b")
      case (Inl e)
      then show ?thesis using Inr Cons.prems by (simp add: fileBytes_def)
    next
      case (Inr b')
      have "nodes (fs_streamWrite p b' fs) p = Some (File (fileBytes fs p @ b'))"
        by (simp add: nodes_streamWrite)
      from Cons.IH [OF this] show ?thesis
        using \<open>chunkToBuffer c = Inr b\<close> Inr by simp
    qed
  qed
qed

lemma writeChunks_masked:
  assumes "truthy msk" "chunkToBuffer (the msk) = Inr key" "key \<noteq> []"
  shows "map chunkToBuffer content = map Inr buffers \<Longrightarrow>
    fst (writeChunks rt p msk content w fs) = Inr (w + sum_list (map length buffers))
    \<and> fileBytes (snd (writeChunks rt p msk content w fs)) p
        = fileBytes fs p @ concat (map (\<lambda>b. map (\<lambda>i. (b ! i) XOR (key ! (i mod length key))) [0..<length b]) buffers)"
proof (induction content arbitrary: buffers w fs)
  case Nil
  then show ?case by simp
next
  case (Cons c content)
  then obtain b bs where bs: "buffers = b # bs" "chunkToBuffer c = Inr b"
    "map chunkToBuffer content = map Inr bs"
    by (cases buffers) auto
  note m = maskForWrite_padded [OF assms, of rt b]
  show ?case
    using Cons.IH [OF bs(3), of "w + length b" "fs_streamWrite p (map (\<lambda>i. (b ! i) XOR (key ! (i mod length key))) [0..<length b]) fs"]
    using bs by (simp add: m)
qed

lemma openWrite_ok:
  "notWritable fs p = None \<Longrightarrow>
   fs_openWrite p fs = (Inr (), called (OpenWrite p) (fs\<lparr>nodes := (nodes fs)(p \<mapsto> File [])\<rparr>))"
  by (simp add: fs_openWrite_def)

text \<open>
  Claim C7. When \<open>writeBinaryStream\<close> is given a mask (a truthy value that coerces to a
  non-empty key), a token that is not cancelled and a destination that can be opened, and
  every chunk coerces to a buffer: the file holds the concatenation of the chunks, each masked
  on its own with the key index starting at 0 at the first byte of the chunk, and the call
  resolves with the total number of bytes written.
\<close>

theorem stream_masks_each_chunk:
  assumes "map chunkToBuffer content = map Inr buffers"
    and "truthy msk" and "chunkToBuffer (the msk) = Inr key" and "key \<noteq> []"
    and "\<not> cancelled tok"
    and "notWritable fs filepath = None"
  shows "fst (writeBinaryStream rt filepath content msk tok fs) = Inr (sum_list (map length buffers))
     \<and> nodes (snd (writeBinaryStream rt filepath content msk tok fs)) filepath
         = Some (File (concat (map (\<lambda>b. map (\<lambda>i. (b ! i) XOR (key ! (i mod length key))) [0..<length b]) buffers)))"
proof -
  let ?fs1 = "called (OpenWrite filepath) (fs\<lparr>nodes := (nodes fs)(filepath \<mapsto> File [])\<rparr>)"
  have run: "writeBinaryStream rt filepath content msk tok fs
      = writeChunks rt filepath msk content 0 ?fs1"
    using assms(5,6) by (simp add: writeBinaryStream_def openWrite_ok)
  have opened: "nodes ?fs1 filepath = Some (File [])"
    by (simp add: called_def)
  then have empty: "fileBytes ?fs1 filepath = []"
    by (simp add: fileBytes_def)
  from writeChunks_masked [OF assms(2,3,4) assms(1), of rt filepath 0 ?fs1]
    writeChunks_keeps_file [OF opened, of rt msk content 0]
  show ?thesis
    unfolding run empty by simp
qed


text \<open>
  Two chunks \<open>[1,2,3]\<close> and \<open>[4,5]\<close> under the key \<open>[9,8]\<close>: the second chunk starts again
  at \<open>key[0]\<close>, so its first byte is \<open>4 XOR 9 = 13\<close> (a key index that ran on would give
  \<open>4 XOR 8 = 12\<close>).
\<close>

theorem stream_masks_each_chunk_witness:
  "fst (writeBinaryStream plainRuntime [''tmp'', ''t'', ''f''] [Bytes [1, 2, 3], Bytes [4, 5]]
          (Some (Bytes [9, 8])) None sampleStoreDisk) = Inr 5
   \<and> nodes (snd (writeBinaryStream plainRuntime [''tmp'', ''t'', ''f'']
          [Bytes [1, 2, 3], Bytes [4, 5]] (Some (Bytes [9, 8])) None sampleStoreDisk))
        [''tmp'', ''t'', ''f''] = Some (File [8, 10, 10, 13, 13])"
proof -
  have chunks: "map chunkToBuffer [Bytes [1, 2, 3], Bytes [4, 5]] = map Inr [[1, 2, 3], [4, 5]]"
    by (simp add: chunkToBuffer_def)
  have msk: "truthy (Some (Bytes [9, 8]))" "chunkToBuffer (the (Some (Bytes [9, 8]))) = Inr [9, 8]"
    "[9, 8] \<noteq> ([] :: buffer)" "\<not> cancelled None"
    by (simp_all add: truthy_def chunkToBuffer_def cancelled_def)
  have dest: "notWritable sampleStoreDisk [''tmp'', ''t'', ''f''] = None"
    by (simp add: notWritable_def sampleStoreDisk_def)
  have bytes: "concat (map (\<lambda>b. map (\<lambda>i. (b ! i) XOR ([9, 8 :: byte] ! (i mod length [9, 8 :: byte])))
        [0..<length b]) [[1, 2, 3], [4, 5]]) = [8, 10, 10, 13, 13]"
    by code_simp
  have total: "sum_list (map length [[1, 2, 3], [4, 5 :: byte]]) = 5"
    by simp
  show ?thesis
    using stream_masks_each_chunk [OF chunks msk dest, of plainRuntime]
    by (simp only: bytes total)
qed

text \<open>A stream that resolved has left a file at its path.\<close>

lemma stream_leaves_file:
  assumes "writeBinaryStream rt p content msk tok fs = (Inr n, fs1)"
  shows "\<exists>b. nodes fs1 p = Some (File b)"
proof (cases "fs_openWrite p fs")
  case (Pair r fs0)
  show ?thesis
  proof (cases r)
    case (Inl e)
    with Pair assms show ?thesis
      by (auto simp: writeBinaryStream_def split: if_splits sum.splits)
  next
    case (Inr u)
    with Pair have fs0: "nodes fs0 p = Some (File [])"
      by (auto simp: fs_openWrite_def called_def split: option.splits)
    from Pair Inr assms have "writeChunks rt p msk content 0 fs0 = (Inr n, fs1)"
      by (auto simp: writeBinaryStream_def split: if_splits)
    with writeChunks_keeps_file [OF fs0, of rt msk content 0] show ?thesis
      by auto
  qed
qed

lemma rimraf_file:
  "nodes fs p = Some (File b) \<Longrightarrow>
   rimraf p fs = (Inr (), called (Unlink p) ((called (Lstat p) fs)\<lparr>nodes := (nodes fs)(p := None)\<rparr>))"
  by (simp add: rimraf_def fs_lstat_def fs_unlink_def called_def)

text \<open>
  Claim C2. Let \<open>writeBinaryStream\<close> of the binary I/O layer have run to its end on the
  chunks and resolved with \<open>n\<close> bytes written, leaving the file system \<open>fs1\<close>. Only then
  does the storage compare: if \<open>sizeof + n > maxSize\<close>, the file just written is removed
  (\<open>lstat\<close> and \<open>unlink\<close> follow the stream's calls, and no node is left at the path), the call
  rejects with BufferOverflow and the instance is returned as it was, \<open>sizeof\<close> included;
  otherwise the call succeeds and \<open>sizeof\<close> has grown by exactly \<open>n\<close>.
\<close>

theorem streamed_write_checked_afterwards:
  assumes "defaultToken td tok = Inr t"
    and "writeBinaryStream rt (join (pathname td) filename) content msk (Some t) fs = (Inr n, fs1)"
  shows "(sizeof td + int n > maxSize td \<longrightarrow>
            TemporaryDirectory_writeBinaryStream rt td filename content msk tok options fs
              = (Inl (Exception ERR_BUFFER_OVERFLOW), td, snd (rimraf (join (pathname td) filename) fs1))
          \<and> nodes (snd (rimraf (join (pathname td) filename) fs1)) (join (pathname td) filename) = None
          \<and> calls (snd (rimraf (join (pathname td) filename) fs1))
              = calls fs1 @ [Lstat (join (pathname td) filename), Unlink (join (pathname td) filename)])
       \<and> (sizeof td + int n \<le> maxSize td \<longrightarrow>
            TemporaryDirectory_writeBinaryStream rt td filename content msk tok options fs
              = (Inr (), td\<lparr>sizeof := sizeof td + int n\<rparr>, fs1))"
proof -
  from stream_leaves_file [OF assms(2)] obtain b
    where b: "nodes fs1 (join (pathname td) filename) = Some (File b)" ..
  note r = rimraf_file [OF b]
  show ?thesis
    using assms
    by (simp add: TemporaryDirectory_writeBinaryStream_def r rethrow_def isKnownError_def called_def)
qed


text \<open>
  The scenario of the specification: a stream of 11 bytes into the sample instance
  (\<open>maxSize = 10\<close>) is written, found to overflow, removed and rejected.
\<close>

theorem streamed_write_checked_afterwards_witness:
  "TemporaryDirectory_writeBinaryStream plainRuntime sampleInstance [''f'']
       [Text ''hello '', Text ''world''] None None None sampleStoreDisk
     = (Inl (Exception ERR_BUFFER_OVERFLOW), sampleInstance,
        snd (rimraf [''tmp'', ''t'', ''f'']
          (snd (writeBinaryStream plainRuntime [''tmp'', ''t'', ''f'']
             [Text ''hello '', Text ''world''] None
             (Some \<lparr>isCancellationRequested = False\<rparr>) sampleStoreDisk))))
   \<and> nodes (snd (rimraf [''tmp'', ''t'', ''f'']
          (snd (writeBinaryStream plainRuntime [''tmp'', ''t'', ''f'']
             [Text ''hello '', Text ''world''] None
             (Some \<lparr>isCancellationRequested = False\<rparr>) sampleStoreDisk))))
        [''tmp'', ''t'', ''f''] = None"
proof -
  let ?t = "\<lparr>isCancellationRequested = False\<rparr>"
  let ?p = "join (pathname sampleInstance) [''f'']"
  let ?run = "writeBinaryStream plainRuntime ?p [Text ''hello '', Text ''world''] None (Some ?t)
      sampleStoreDisk"
  have p: "?p = [''tmp'', ''t'', ''f'']"
    by (simp add: join_def normalizePath_def sampleInstance_def)
  have tok: "defaultToken sampleInstance None = Inr ?t"
    by (simp add: defaultToken_def sampleInstance_def newCancellationTokenSource_def)
  have "fst ?run = Inr 11"
    by (simp add: p writeBinaryStream_def fs_openWrite_def notWritable_def sampleStoreDisk_def
        cancelled_def chunkToBuffer_def maskForWrite_def truthy_def)
  then have run: "?run = (Inr 11, snd ?run)"
    by (metis prod.collapse)
  have over: "sizeof sampleInstance + int 11 > maxSize sampleInstance"
    by (simp add: sampleInstance_def)
  from streamed_write_checked_afterwards [OF tok run, of None, THEN conjunct1, rule_format, OF over]
  show ?thesis
    by (simp only: p)
qed


section \<open>Operations that leave the ledger alone\<close>

lemma copy_instance [simp]: "fst (snd (TemporaryDirectory_copy td src destination fs)) = td"
  by (simp add: TemporaryDirectory_copy_def split: prod.splits)

lemma rename_instance [simp]: "fst (snd (TemporaryDirectory_rename td oldName newName fs)) = td"
  by (simp add: TemporaryDirectory_rename_def split: prod.splits)

lemma copy_existing_file:
  "nodes fs (join (pathname td) src) = Some (File b) \<Longrightarrow>
   notWritable fs (join (pathname td) destination) = None \<Longrightarrow>
   TemporaryDirectory_copy td src destination fs
     = (Inr (), td,
        called (CopyFile (join (pathname td) src) (join (pathname td) destination))
          (fs\<lparr>nodes := (nodes fs)(join (pathname td) destination \<mapsto> File b)\<rparr>))"
  by (simp add: TemporaryDirectory_copy_def fs_copyFile_def)

text \<open>
  Claim C10. \<open>copy\<close> and \<open>rename\<close> return the instance as it was, whatever their outcome, so
  \<open>sizeof\<close> is unchanged. Copying an existing file to a path that can be written succeeds
  without any comparison with \<open>maxSize\<close>: afterwards the destination holds the same bytes, the
  source still holds them, and the ledger has not moved.
\<close>

theorem copy_and_rename_keep_the_ledger:
  "sizeof (fst (snd (TemporaryDirectory_copy td src destination fs))) = sizeof td
   \<and> sizeof (fst (snd (TemporaryDirectory_rename td oldName newName fs))) = sizeof td
   \<and> (\<forall>b. nodes fs (join (pathname td) src) = Some (File b)
          \<and> notWritable fs (join (pathname td) destination) = None \<longrightarrow>
        fst (TemporaryDirectory_copy td src destination fs) = Inr ()
        \<and> nodes (snd (snd (TemporaryDirectory_copy td src destination fs)))
             (join (pathname td) destination) = Some (File b)
        \<and> nodes (snd (snd (TemporaryDirectory_copy td src destination fs)))
             (join (pathname td) src) = Some (File b)
        \<and> sizeof (fst (snd (TemporaryDirectory_copy td src destination fs))) = sizeof td)"
  by (auto simp: copy_existing_file called_def)

text \<open>
  An instance whose ledger is at its quota (\<open>sizeof = maxSize = 10\<close>) with a file of five
  bytes: the copy succeeds and the ledger stays at 10.
\<close>

theorem copy_and_rename_keep_the_ledger_witness:
  "fst (TemporaryDirectory_copy (sampleInstance\<lparr>sizeof := 10\<rparr>) [''a''] [''b'']
          (sampleStoreDisk\<lparr>nodes := (nodes sampleStoreDisk)([''tmp'', ''t'', ''a''] \<mapsto>
             File [1, 2, 3, 4, 5])\<rparr>)) = Inr ()
   \<and> nodes (snd (snd (TemporaryDirectory_copy (sampleInstance\<lparr>sizeof := 10\<rparr>) [''a''] [''b'']
          (sampleStoreDisk\<lparr>nodes := (nodes sampleStoreDisk)([''tmp'', ''t'', ''a''] \<mapsto>
             File [1, 2, 3, 4, 5])\<rparr>))))
        (join (pathname (sampleInstance\<lparr>sizeof := 10\<rparr>)) [''b'']) = Some (File [1, 2, 3, 4, 5])
   \<and> sizeof (fst (snd (TemporaryDirectory_copy (sampleInstance\<lparr>sizeof := 10\<rparr>) [''a''] [''b'']
          (sampleStoreDisk\<lparr>nodes := (nodes sampleStoreDisk)([''tmp'', ''t'', ''a''] \<mapsto>
             File [1, 2, 3, 4, 5])\<rparr>)))) = 10"
proof -
  let ?td = "sampleInstance\<lparr>sizeof := 10\<rparr>"
  let ?fs = "sampleStoreDisk\<lparr>nodes := (nodes sampleStoreDisk)([''tmp'', ''t'', ''a''] \<mapsto>
             File [1, 2, 3, 4, 5])\<rparr>"
  have src: "nodes ?fs (join (pathname ?td) [''a'']) = Some (File [1, 2, 3, 4, 5])"
    by (simp add: join_def normalizePath_def sampleInstance_def)
  have dst: "notWritable ?fs (join (pathname ?td) [''b'']) = None"
    by (simp add: join_def normalizePath_def sampleInstance_def notWritable_def sampleStoreDisk_def)
  from copy_and_rename_keep_the_ledger [of ?td "[''a'']" "[''b'']" ?fs, THEN conjunct2,
      THEN conjunct2, rule_format, OF conjI, OF src dst]
  show ?thesis by simp
qed


section \<open>Disposal\<close>

text \<open>
  In the model no removal can fail, so \<open>rimraf\<close> always succeeds; on a directory it removes
  the whole tree.
\<close>

lemma rimraf_succeeds: "fst (rimraf p fs) = Inr ()"
  by (auto simp: rimraf_def fs_lstat_def fs_unlink_def called_def split: option.splits node.splits)

lemma rimraf_directory:
  "nodes fs p = Some Directory \<Longrightarrow> rimraf p fs = (Inr (), removeTree p (called (Lstat p) fs))"
  by (simp add: rimraf_def fs_lstat_def)

lemma rimraf_missing:
  "nodes fs p = None \<Longrightarrow> rimraf p fs = (Inr (), called (Lstat p) fs)"
  by (simp add: rimraf_def fs_lstat_def)

lemma gone_removeTree: "gone p (removeTree p fs)"
  by (simp add: gone_def removeTree_def called_def)

lemma gone_called [simp]: "gone p (called c fs) = gone p fs"
  by (simp add: gone_def called_def)

lemma nodes_called [simp]: "nodes (called c fs) = nodes fs"
  by (simp add: called_def)

lemma gone_at: "gone p fs \<Longrightarrow> prefix p q \<Longrightarrow> nodes fs q = None"
  by (simp add: gone_def)

lemma gone_parent:
  assumes "gone p fs" and "strict_prefix p q"
  shows "nodes fs (butlast q) = None"
proof -
  from assms(2) obtain zs where q: "q = p @ zs" and zs: "zs \<noteq> []"
    by (auto simp: strict_prefix_def prefix_def)
  then have "butlast q = p @ butlast zs"
    by (simp add: butlast_append)
  then have "prefix p (butlast q)"
    by simp
  with assms(1) show ?thesis
    by (simp add: gone_def)
qed

lemma notWritable_gone:
  "gone p fs \<Longrightarrow> strict_prefix p q \<Longrightarrow> notWritable fs q = Some ENOENT"
  by (simp add: notWritable_def gone_at gone_parent strict_prefix_def)

lemma dispose_twice:
  assumes "fst (dispose td fs) = Inr ()"
  shows "dispose (fst (snd (dispose td fs))) (snd (snd (dispose td fs)))
     = (Inr (), fst (snd (dispose td fs)), snd (snd (dispose td fs)))"
proof (cases "disposed td")
  case True
  then show ?thesis by (simp add: dispose_def)
next
  case False
  with assms obtain s where s: "source td = Some s"
    by (cases "source td") (auto simp: dispose_def)
  obtain r fs1 where r: "rimraf (pathname td) fs = (r, fs1)"
    by (cases "rimraf (pathname td) fs")
  with rimraf_succeeds [of "pathname td" fs] have "r = Inr ()" by simp
  with r s False show ?thesis by (simp add: dispose_def)
qed

lemma dispose_state:
  assumes "\<not> disposed td" "source td \<noteq> None" "nodes fs (pathname td) = Some Directory"
  shows "dispose td fs = (Inr (), td\<lparr>source := None, sizeof := 0, disposed := True\<rparr>,
           removeTree (pathname td) (called (Lstat (pathname td)) fs))"
  using assms by (auto simp: dispose_def rimraf_directory)

lemma rethrow_gone:
  assumes "gone (pathname td) fs" "prefix (pathname td) (join (pathname td) f)"
  shows "\<exists>e fs'. rethrow td f options err fs = (Inl e, td, fs') \<and> nodes fs' = nodes fs"
  using gone_at [OF assms]
  by (simp add: rethrow_def fs_unlink_def)

lemma write_gone:
  assumes "gone (pathname td) fs" "strict_prefix (pathname td) (join (pathname td) f)"
  shows "\<exists>e fs'. TemporaryDirectory_write td f c fs = (Inl e, td, fs') \<and> nodes fs' = nodes fs"
  using notWritable_gone [OF assms]
  by (auto simp: TemporaryDirectory_write_def fs_writeFile_def split: sum.splits)

lemma append_gone:
  assumes "gone (pathname td) fs" "strict_prefix (pathname td) (join (pathname td) f)"
  shows "\<exists>e fs'. TemporaryDirectory_append td f c fs = (Inl e, td, fs') \<and> nodes fs' = nodes fs"
  using notWritable_gone [OF assms]
  by (auto simp: TemporaryDirectory_append_def fs_appendFile_def split: sum.splits)

lemma writeBinarySync_gone:
  assumes "gone (pathname td) fs" "strict_prefix (pathname td) (join (pathname td) f)"
  shows "\<exists>e fs'. TemporaryDirectory_writeBinarySync rt td f c m fs = (Inl e, td, fs')
           \<and> nodes fs' = nodes fs"
  using notWritable_gone [OF assms]
  by (auto simp: TemporaryDirectory_writeBinarySync_def writeBinarySync_def fs_writeFile_def
      split: sum.splits)

lemma fsbin_writeBinary_gone:
  assumes "gone p fs" "strict_prefix p q"
  shows "\<exists>e fs'. writeBinary rt q c m t fs = (Inl e, fs') \<and> nodes fs' = nodes fs"
  using notWritable_gone [OF assms]
  by (auto simp: writeBinary_def fs_writeFile_def split: sum.splits)

lemma writeBinary_gone:
  assumes "gone (pathname td) fs" "strict_prefix (pathname td) (join (pathname td) f)"
  shows "\<exists>e fs'. TemporaryDirectory_writeBinary rt td f c m t opts fs = (Inl e, td, fs')
           \<and> nodes fs' = nodes fs"
proof (cases "defaultToken td t")
  case (Inl e)
  then show ?thesis by (simp add: TemporaryDirectory_writeBinary_def)
next
  case (Inr tk)
  from assms(2) have within: "prefix (pathname td) (join (pathname td) f)"
    by (simp add: strict_prefix_def)
  show ?thesis
  proof (cases "chunkToBuffer c")
    case (Inl e)
    with Inr rethrow_gone [OF assms(1) within] show ?thesis
      by (simp add: TemporaryDirectory_writeBinary_def)
  next
    case b: (Inr buffer)
    show ?thesis
    proof (cases "sizeof td + int (length buffer) > maxSize td")
      case True
      with Inr b rethrow_gone [OF assms(1) within] show ?thesis
        by (simp add: TemporaryDirectory_writeBinary_def)
    next
      case False
      from fsbin_writeBinary_gone [OF assms, of rt c m "Some tk"] obtain e fs1
        where w: "writeBinary rt (join (pathname td) f) c m (Some tk) fs = (Inl e, fs1)"
          and n: "nodes fs1 = nodes fs" by blast
      from assms(1) n have "gone (pathname td) fs1" by (simp add: gone_def)
      from rethrow_gone [OF this within, of opts e] w n Inr b False show ?thesis
        by (auto simp: TemporaryDirectory_writeBinary_def)
    qed
  qed
qed

lemma fsbin_writeBinaryStream_gone:
  assumes "gone p fs" "strict_prefix p q"
  shows "\<exists>e fs'. writeBinaryStream rt q cs m t fs = (Inl e, fs') \<and> nodes fs' = nodes fs"
  using notWritable_gone [OF assms]
  by (auto simp: writeBinaryStream_def fs_openWrite_def split: sum.splits)

lemma writeBinaryStream_gone:
  assumes "gone (pathname td) fs" "strict_prefix (pathname td) (join (pathname td) f)"
  shows "\<exists>e fs'. TemporaryDirectory_writeBinaryStream rt td f cs m t opts fs = (Inl e, td, fs')
           \<and> nodes fs' = nodes fs"
proof (cases "defaultToken td t")
  case (Inl e)
  then show ?thesis by (simp add: TemporaryDirectory_writeBinaryStream_def)
next
  case (Inr tk)
  from assms(2) have within: "prefix (pathname td) (join (pathname td) f)"
    by (simp add: strict_prefix_def)
  from fsbin_writeBinaryStream_gone [OF assms, of rt cs m "Some tk"] obtain e fs1
    where w: "writeBinaryStream rt (join (pathname td) f) cs m (Some tk) fs = (Inl e, fs1)"
      and n: "nodes fs1 = nodes fs" by blast
  from assms(1) n have "gone (pathname td) fs1" by (simp add: gone_def)
  from rethrow_gone [OF this within, of opts e] w n Inr show ?thesis
    by (auto simp: TemporaryDirectory_writeBinaryStream_def)
qed

lemma remove_gone:
  assumes "gone (pathname td) fs" "prefix (pathname td) (join (pathname td) f)"
  shows "\<exists>e fs'. TemporaryDirectory_remove td f fs = (Inl e, td, fs') \<and> nodes fs' = nodes fs"
  using gone_at [OF assms]
  by (simp add: TemporaryDirectory_remove_def fs_stat_def)

lemma rename_gone:
  assumes "gone (pathname td) fs" "prefix (pathname td) (join (pathname td) a)"
  shows "\<exists>e fs'. TemporaryDirectory_rename td a b fs = (Inl e, td, fs') \<and> nodes fs' = nodes fs"
  using gone_at [OF assms]
  by (simp add: TemporaryDirectory_rename_def fs_rename_def)

lemma copy_gone:
  assumes "gone (pathname td) fs" "prefix (pathname td) (join (pathname td) a)"
  shows "\<exists>e fs'. TemporaryDirectory_copy td a b fs = (Inl e, td, fs') \<and> nodes fs' = nodes fs"
  using gone_at [OF assms]
  by (simp add: TemporaryDirectory_copy_def fs_copyFile_def)

lemma perform_gone:
  assumes "gone (pathname td) fs" "addressesEntry (pathname td) op"
  shows "\<exists>e fs'. perform rt op td fs = (Inl e, td, fs') \<and> nodes fs' = nodes fs"
  using assms
  by (cases op)
    (simp_all add: write_gone append_gone writeBinary_gone writeBinarySync_gone
      writeBinaryStream_gone remove_gone rename_gone copy_gone
      TemporaryDirectory_writeSync_def TemporaryDirectory_appendSync_def
      TemporaryDirectory_removeSync_def)

text \<open>
  What \<open>clear\<close> and \<open>createSubdirectory\<close> do when the directory is gone: \<open>ensureDir\<close> finds
  nothing and \<open>mkdir\<close> creates the path again.
\<close>

lemma mkdir_creates:
  assumes "noFileOnPath fs q"
  shows "fst (fs_mkdir q fs) = Inr ()"
    and "nodes fs q = None \<Longrightarrow> nodes (snd (fs_mkdir q fs)) q = Some Directory"
  using assms by (simp_all add: fs_mkdir_def noFileOnPath_def called_def)

lemma ensureDir_creates:
  assumes "noFileOnPath fs q" "nodes fs q = None"
  shows "fst (ensureDir q fs) = Inr ()"
    and "nodes (snd (ensureDir q fs)) q = Some Directory"
proof -
  have fs1: "noFileOnPath (called (Stat q) fs) q" "nodes (called (Stat q) fs) q = None"
    using assms by (simp_all add: noFileOnPath_def called_def)
  have e: "ensureDir q fs = fs_mkdir q (called (Stat q) fs)"
    using assms(2) by (simp add: ensureDir_def fs_stat_def)
  show "fst (ensureDir q fs) = Inr ()" "nodes (snd (ensureDir q fs)) q = Some Directory"
    using mkdir_creates [OF fs1(1)] fs1(2) by (simp_all add: e)
qed

lemma noFileOnPath_below:
  assumes "noFileOnPath fs p" "gone p fs" "prefix p q"
  shows "noFileOnPath fs q"
proof -
  have "\<not> (case nodes fs r of Some (File b) \<Rightarrow> True | _ \<Rightarrow> False)" if r: "prefix r q" for r
  proof (cases "prefix p r")
    case True
    with assms(2) show ?thesis by (simp add: gone_at)
  next
    case False
    with r assms(3) have "prefix r p"
      by (metis prefix_same_cases)
    with assms(1) show ?thesis
      by (auto simp: noFileOnPath_def list_ex_iff)
  qed
  then show ?thesis
    by (auto simp: noFileOnPath_def list_ex_iff)
qed

lemma clear_recreates:
  assumes "gone (pathname td) fs" "noFileOnPath fs (pathname td)"
  shows "fst (TemporaryDirectory_clear td fs) = Inr ()"
    and "fst (snd (TemporaryDirectory_clear td fs)) = td\<lparr>sizeof := 0\<rparr>"
    and "nodes (snd (snd (TemporaryDirectory_clear td fs))) (pathname td) = Some Directory"
proof -
  let ?fs1 = "called (Lstat (pathname td)) fs"
  have missing: "nodes fs (pathname td) = None"
    using assms(1) by (simp add: gone_at)
  then have r: "rimraf (pathname td) fs = (Inr (), ?fs1)"
    by (rule rimraf_missing)
  have fs1: "noFileOnPath ?fs1 (pathname td)" "nodes ?fs1 (pathname td) = None"
    using assms(2) missing by (simp_all add: noFileOnPath_def called_def)
  obtain r2 fs2 where e: "ensureDir (pathname td) ?fs1 = (r2, fs2)"
    by (cases "ensureDir (pathname td) ?fs1") auto
  with ensureDir_creates [OF fs1] have "r2 = Inr ()" "nodes fs2 (pathname td) = Some Directory"
    by simp_all
  with r e show "fst (TemporaryDirectory_clear td fs) = Inr ()"
    "fst (snd (TemporaryDirectory_clear td fs)) = td\<lparr>sizeof := 0\<rparr>"
    "nodes (snd (snd (TemporaryDirectory_clear td fs))) (pathname td) = Some Directory"
    by (simp_all add: TemporaryDirectory_clear_def)
qed

lemma createSubdirectory_recreates:
  assumes "gone (pathname td) fs" "noFileOnPath fs (pathname td)"
    and "prefix (pathname td) (join (pathname td) name)"
  shows "fst (TemporaryDirectory_createSubdirectory td name fs) = Inr ()"
    and "fst (snd (TemporaryDirectory_createSubdirectory td name fs)) = td"
    and "nodes (snd (snd (TemporaryDirectory_createSubdirectory td name fs)))
           (join (pathname td) name) = Some Directory"
proof -
  let ?q = "join (pathname td) name"
  have q: "noFileOnPath fs ?q" "nodes fs ?q = None"
    using noFileOnPath_below [OF assms(2,1,3)] gone_at [OF assms(1,3)] by simp_all
  obtain r fs1 where e: "ensureDir ?q fs = (r, fs1)"
    by (cases "ensureDir ?q fs") auto
  with ensureDir_creates [OF q] have "r = Inr ()" "nodes fs1 ?q = Some Directory"
    by simp_all
  with e show "fst (TemporaryDirectory_createSubdirectory td name fs) = Inr ()"
    "fst (snd (TemporaryDirectory_createSubdirectory td name fs)) = td"
    "nodes (snd (snd (TemporaryDirectory_createSubdirectory td name fs)))
           (join (pathname td) name) = Some Directory"
    by (simp_all add: TemporaryDirectory_createSubdirectory_def)
qed

lemma rethrow_instance: "fst (snd (rethrow td f options err fs)) = td"
  by (simp add: rethrow_def split: prod.splits sum.splits)

lemma perform_disposed:
  "disposed td \<Longrightarrow> disposed (fst (snd (perform rt op td fs)))"
  by (cases op)
    (auto simp: TemporaryDirectory_write_def TemporaryDirectory_writeSync_def
      TemporaryDirectory_append_def TemporaryDirectory_appendSync_def
      TemporaryDirectory_writeBinary_def TemporaryDirectory_writeBinarySync_def
      TemporaryDirectory_writeBinaryStream_def TemporaryDirectory_remove_def
      TemporaryDirectory_removeSync_def TemporaryDirectory_clear_def
      TemporaryDirectory_rename_def TemporaryDirectory_copy_def
      TemporaryDirectory_createSubdirectory_def dispose_def rethrow_instance
      split: sum.splits prod.splits if_splits option.splits)


text \<open>
  Claim C8, as the code has it. No operation tests the \<open>disposed\<close> flag except \<open>dispose\<close>
  itself. What holds: \<open>dispose\<close> is idempotent (after a \<open>dispose\<close> that returned, a second
  call returns the same instance and file system); no operation resets \<open>disposed\<close>;
  \<open>dispose\<close> of a live instance whose directory is in place succeeds, sets \<open>disposed\<close>,
  resets the ledger to 0, drops the source and leaves nothing at or below the pathname. As
  long as nothing is there, every \<open>write\<close>, \<open>append\<close>, \<open>writeBinary\<close> and
  \<open>writeBinaryStream\<close> whose file name resolves strictly below the pathname, and every
  \<open>remove\<close>, \<open>rename\<close> and \<open>copy\<close> whose name resolves to the pathname or below, fails,
  returns the instance as it was and changes no node of the file system. \<open>clear\<close> and
  \<open>createSubdirectory\<close> are not rejected: when no ancestor of the pathname is a file, \<open>clear\<close>
  succeeds, creates the directory again and sets the ledger to 0, and \<open>createSubdirectory\<close>
  (of a name that resolves to the pathname or below) succeeds and creates its directory.
\<close>

theorem dispose_idempotent_and_entries_rejected:
  "(fst (dispose td fs) = Inr () \<longrightarrow>
      dispose (fst (snd (dispose td fs))) (snd (snd (dispose td fs)))
        = (Inr (), fst (snd (dispose td fs)), snd (snd (dispose td fs))))
   \<and> (disposed td \<longrightarrow> disposed (fst (snd (perform rt op td fs))))
   \<and> (\<not> disposed td \<and> source td \<noteq> None \<and> nodes fs (pathname td) = Some Directory \<longrightarrow>
        fst (dispose td fs) = Inr ()
        \<and> disposed (fst (snd (dispose td fs)))
        \<and> sizeof (fst (snd (dispose td fs))) = 0
        \<and> source (fst (snd (dispose td fs))) = None
        \<and> pathname (fst (snd (dispose td fs))) = pathname td
        \<and> gone (pathname td) (snd (snd (dispose td fs))))
   \<and> (gone (pathname td) fs \<and> addressesEntry (pathname td) op \<longrightarrow>
        (\<exists>e fs'. perform rt op td fs = (Inl e, td, fs')
            \<and> nodes fs' = nodes fs \<and> gone (pathname td) fs'))
   \<and> (gone (pathname td) fs \<and> noFileOnPath fs (pathname td) \<longrightarrow>
        fst (TemporaryDirectory_clear td fs) = Inr ()
        \<and> fst (snd (TemporaryDirectory_clear td fs)) = td\<lparr>sizeof := 0\<rparr>
        \<and> nodes (snd (snd (TemporaryDirectory_clear td fs))) (pathname td) = Some Directory)
   \<and> (gone (pathname td) fs \<and> noFileOnPath fs (pathname td)
          \<and> prefix (pathname td) (join (pathname td) name) \<longrightarrow>
        fst (TemporaryDirectory_createSubdirectory td name fs) = Inr ()
        \<and> fst (snd (TemporaryDirectory_createSubdirectory td name fs)) = td
        \<and> nodes (snd (snd (TemporaryDirectory_createSubdirectory td name fs)))
             (join (pathname td) name) = Some Directory)"
proof (intro conjI impI)
  assume "fst (dispose td fs) = Inr ()"
  then show "dispose (fst (snd (dispose td fs))) (snd (snd (dispose td fs)))
     = (Inr (), fst (snd (dispose td fs)), snd (snd (dispose td fs)))"
    by (rule dispose_twice)
next
  assume "disposed td"
  then show "disposed (fst (snd (perform rt op td fs)))"
    by (rule perform_disposed)
next
  assume a: "\<not> disposed td \<and> source td \<noteq> None \<and> nodes fs (pathname td) = Some Directory"
  then have d: "dispose td fs = (Inr (), td\<lparr>source := None, sizeof := 0, disposed := True\<rparr>,
           removeTree (pathname td) (called (Lstat (pathname td)) fs))"
    by (simp add: dispose_state)
  show "fst (dispose td fs) = Inr ()" "disposed (fst (snd (dispose td fs)))"
    "sizeof (fst (snd (dispose td fs))) = 0" "source (fst (snd (dispose td fs))) = None"
    "pathname (fst (snd (dispose td fs))) = pathname td"
    "gone (pathname td) (snd (snd (dispose td fs)))"
    by (simp_all add: d gone_removeTree)
next
  assume a: "gone (pathname td) fs \<and> addressesEntry (pathname td) op"
  with perform_gone [of td fs op rt] obtain e fs'
    where p: "perform rt op td fs = (Inl e, td, fs')" and n: "nodes fs' = nodes fs"
    by blast
  from a n have "gone (pathname td) fs'"
    by (simp add: gone_def)
  with p n show "\<exists>e fs'. perform rt op td fs = (Inl e, td, fs')
      \<and> nodes fs' = nodes fs \<and> gone (pathname td) fs'"
    by blast
next
  assume a: "gone (pathname td) fs \<and> noFileOnPath fs (pathname td)"
  then show "fst (TemporaryDirectory_clear td fs) = Inr ()"
    "fst (snd (TemporaryDirectory_clear td fs)) = td\<lparr>sizeof := 0\<rparr>"
    "nodes (snd (snd (TemporaryDirectory_clear td fs))) (pathname td) = Some Directory"
    by (simp_all add: clear_recreates)
next
  assume a: "gone (pathname td) fs \<and> noFileOnPath fs (pathname td)
      \<and> prefix (pathname td) (join (pathname td) name)"
  then show "fst (TemporaryDirectory_createSubdirectory td name fs) = Inr ()"
    "fst (snd (TemporaryDirectory_createSubdirectory td name fs)) = td"
    "nodes (snd (snd (TemporaryDirectory_createSubdirectory td name fs)))
             (join (pathname td) name) = Some Directory"
    by (simp_all add: createSubdirectory_recreates)
qed

text \<open>
  The sample instance is disposed; afterwards a \<open>write\<close> to the entry \<open>a\<close> fails, a second
  \<open>dispose\<close> changes nothing, and \<open>clear\<close> succeeds and creates the directory again.
\<close>

theorem dispose_idempotent_and_entries_rejected_witness:
  "disposed (fst (snd (dispose sampleInstance sampleStoreDisk)))
   \<and> sizeof (fst (snd (dispose sampleInstance sampleStoreDisk))) = 0
   \<and> gone (pathname sampleInstance) (snd (snd (dispose sampleInstance sampleStoreDisk)))
   \<and> dispose (fst (snd (dispose sampleInstance sampleStoreDisk)))
        (snd (snd (dispose sampleInstance sampleStoreDisk)))
       = (Inr (), fst (snd (dispose sampleInstance sampleStoreDisk)),
          snd (snd (dispose sampleInstance sampleStoreDisk)))
   \<and> (\<exists>e fs'. perform plainRuntime (Write [''a''] (Text ''12345''))
          (fst (snd (dispose sampleInstance sampleStoreDisk)))
          (snd (snd (dispose sampleInstance sampleStoreDisk)))
        = (Inl e, fst (snd (dispose sampleInstance sampleStoreDisk)), fs'))
   \<and> fst (TemporaryDirectory_clear (fst (snd (dispose sampleInstance sampleStoreDisk)))
          (snd (snd (dispose sampleInstance sampleStoreDisk)))) = Inr ()
   \<and> fst (TemporaryDirectory_createSubdirectory (fst (snd (dispose sampleInstance sampleStoreDisk)))
          [''sub''] (snd (snd (dispose sampleInstance sampleStoreDisk)))) = Inr ()"
proof -
  let ?td = "fst (snd (dispose sampleInstance sampleStoreDisk))"
  let ?fs = "snd (snd (dispose sampleInstance sampleStoreDisk))"
  let ?w = "Write [''a''] (Text ''12345'')"
  have live: "\<not> disposed sampleInstance \<and> source sampleInstance \<noteq> None
      \<and> nodes sampleStoreDisk (pathname sampleInstance) = Some Directory"
    by (simp add: sampleInstance_def sampleStoreDisk_def)
  from dispose_idempotent_and_entries_rejected
      [of sampleInstance sampleStoreDisk plainRuntime ?w "[''sub'']"] live
  have after: "disposed ?td" "sizeof ?td = 0" "pathname ?td = pathname sampleInstance"
    "gone (pathname sampleInstance) ?fs"
    and again: "dispose ?td ?fs = (Inr (), ?td, ?fs)"
    by simp_all
  have p: "pathname ?td = [''tmp'', ''t'']"
    using after(3) by (simp add: sampleInstance_def)
  have entry: "addressesEntry (pathname ?td) ?w"
    by (simp add: p join_def normalizePath_def)
  have sub: "prefix (pathname ?td) (join (pathname ?td) [''sub''])"
    by (simp add: p join_def normalizePath_def)
  have "nodes ?fs
      = (\<lambda>q. if prefix (pathname sampleInstance) q then None else nodes sampleStoreDisk q)"
    using live by (simp add: dispose_state removeTree_def called_def cong: if_cong)
  then have fs: "nodes ?fs
      = (\<lambda>q. if prefix [''tmp'', ''t''] q then None else nodes sampleStoreDisk q)"
    by (simp only: sampleInstance_def TemporaryDirectory.simps)
  have nofile: "noFileOnPath ?fs (pathname ?td)"
    unfolding noFileOnPath_def p fs by (simp add: sampleStoreDisk_def)
  from dispose_idempotent_and_entries_rejected [of ?td ?fs plainRuntime ?w "[''sub'']"]
    after entry sub nofile
  have "\<exists>e fs'. perform plainRuntime ?w ?td ?fs = (Inl e, ?td, fs')"
    and "fst (TemporaryDirectory_clear ?td ?fs) = Inr ()"
    and "fst (TemporaryDirectory_createSubdirectory ?td [''sub''] ?fs) = Inr ()"
    by auto
  with after again show ?thesis by simp
qed

text \<open>
  The claim as stated fails. On a disposed instance \<open>createSubdirectory\<close> succeeds and creates
  the directory again, and a \<open>write\<close> below it then succeeds and moves the ledger; and a
  \<open>write\<close> to \<open>"../x"\<close>, which resolves to a path beside the removed directory, succeeds
  at once.
\<close>

theorem createSubdirectory_after_dispose_counterexample:
  "(case create [''tmp'', ''t''] (Some \<lparr>opt_maxSize = Some 10\<rparr>) sampleDisk of
      (Inr td, fs1) \<Rightarrow>
        (case dispose td fs1 of
           (r2, td2, fs2) \<Rightarrow>
             (case TemporaryDirectory_createSubdirectory td2 [''sub''] fs2 of
                (r3, td3, fs3) \<Rightarrow>
                  (case TemporaryDirectory_write td3 [''sub'', ''a''] (Text ''12345'') fs3 of
                     (r4, td4, fs4) \<Rightarrow>
                       disposed td2 \<and> nodes fs2 [''tmp'', ''t''] = None
                       \<and> r3 = Inr () \<and> nodes fs3 [''tmp'', ''t'', ''sub''] = Some Directory
                       \<and> r4 = Inr () \<and> sizeof td4 = 5 \<and> disposed td4
                       \<and> nodes fs4 [''tmp'', ''t'', ''sub'', ''a'']
                           = Some (File (map of_char ''12345'')))))
    | (Inl e, fs1) \<Rightarrow> False)
   \<and> (case create [''tmp'', ''t''] (Some \<lparr>opt_maxSize = Some 10\<rparr>) sampleDisk of
      (Inr td, fs1) \<Rightarrow>
        (case dispose td fs1 of
           (r2, td2, fs2) \<Rightarrow>
             (case TemporaryDirectory_write td2 [''..'', ''x''] (Text ''12345'') fs2 of
                (r3, td3, fs3) \<Rightarrow>
                  disposed td2 \<and> r3 = Inr () \<and> sizeof td3 = 5
                  \<and> nodes fs3 [''tmp'', ''x''] = Some (File (map of_char ''12345''))))
    | (Inl e, fs1) \<Rightarrow> False)"
  by (simp add: create_def ensureDir_def fs_stat_def fs_mkdir_def sampleDisk_def called_def
      construct_def dispose_def rimraf_def fs_lstat_def removeTree_def chunkToBuffer_def
      TemporaryDirectory_createSubdirectory_def TemporaryDirectory_write_def fs_writeFile_def
      notWritable_def join_def normalizePath_def prefixes_snoc newCancellationTokenSource_def)

section \<open>The ledger along a sequence of operations\<close>

text \<open>
  Claim C3, at inputs where the code departs from it. \<open>create\<close> puts the \<open>stat\<close> size of the
  directory itself on the ledger, and \<open>remove\<close> takes off the \<open>stat\<close> size of whatever the name
  resolves to, whether or not a write has put it on.

  \<^item> On a platform whose directories have size 4096, the fresh instance with \<open>maxSize = 10\<close>
    starts at \<open>sizeof = 4096\<close>; \<open>write("a", "12345")\<close> is rejected with BufferOverflow and the
    ledger stays at 4096, above \<open>maxSize\<close>.
  \<^item> An instance created over a directory that already holds a file \<open>x\<close> of seven bytes starts
    at 0 (directories of size 0) and is at \<open>-7\<close> after \<open>remove("x")\<close>.
  \<^item> A fresh instance over a new, empty directory (directories of size 0, \<open>maxSize = 10\<close>):
    \<open>write("a", "12345")\<close> succeeds with \<open>sizeof = 5\<close>; \<open>remove("../big")\<close> then deletes the
    eight-byte file beside the directory and leaves \<open>sizeof = -3\<close>.
\<close>

theorem ledger_leaves_its_bounds:
  "(case create [''tmp'', ''t''] (Some \<lparr>opt_maxSize = Some 10\<rparr>) sampleDisk4096 of
      (Inr td, fs1) \<Rightarrow>
        (case TemporaryDirectory_write td [''a''] (Text ''12345'') fs1 of
           (r2, td2, fs2) \<Rightarrow>
             sizeof td = 4096 \<and> maxSize td = 10
             \<and> r2 = Inl (Exception ERR_BUFFER_OVERFLOW)
             \<and> sizeof td2 = 4096 \<and> maxSize td2 = 10)
    | (Inl e, fs1) \<Rightarrow> False)
   \<and> (case create [''tmp'', ''t''] (Some \<lparr>opt_maxSize = Some 10\<rparr>) sampleUsedDisk of
      (Inr td, fs1) \<Rightarrow>
        (case TemporaryDirectory_remove td [''x''] fs1 of
           (r2, td2, fs2) \<Rightarrow>
             sizeof td = 0 \<and> r2 = Inr () \<and> sizeof td2 = - 7 \<and> maxSize td2 = 10)
    | (Inl e, fs1) \<Rightarrow> False)
   \<and> (case create [''tmp'', ''t''] (Some \<lparr>opt_maxSize = Some 10\<rparr>) sampleSharedDisk of
      (Inr td, fs1) \<Rightarrow>
        (case TemporaryDirectory_write td [''a''] (Text ''12345'') fs1 of
           (r2, td2, fs2) \<Rightarrow>
             (case TemporaryDirectory_remove td2 [''..'', ''big''] fs2 of
                (r3, td3, fs3) \<Rightarrow>
                  sizeof td = 0 \<and> r2 = Inr () \<and> sizeof td2 = 5
                  \<and> r3 = Inr () \<and> sizeof td3 = - 3 \<and> maxSize td3 = 10
                  \<and> nodes fs3 [''tmp'', ''big''] = None))
    | (Inl e, fs1) \<Rightarrow> False)"
  by (simp add: create_def ensureDir_def fs_stat_def fs_mkdir_def sampleDisk4096_def
      sampleUsedDisk_def sampleSharedDisk_def called_def
      construct_def chunkToBuffer_def TemporaryDirectory_write_def fs_writeFile_def
      notWritable_def join_def normalizePath_def prefixes_snoc TemporaryDirectory_remove_def
      rimraf_def fs_lstat_def fs_unlink_def removeTree_def)


section \<open>Cancellation before a download\<close>

lemma installToken_cancelled:
  "opt_token ov = Some t \<Longrightarrow> isCancellationRequested t \<Longrightarrow>
   installToken svc (Some ov) = Inl (Exception ERR_TOKEN_CANCELED)"
  by (simp add: installToken_def)

lemma download_cancelled_file:
  "scheme (metadata_source svc) = ''file'' \<Longrightarrow> opt_token ov = Some t \<Longrightarrow>
   isCancellationRequested t \<Longrightarrow>
   download net svc (Some ov) h = (Some (Inl (Exception ERR_TOKEN_CANCELED)), svc, h)"
  by (simp add: download_def downloadFromFile_def installToken_cancelled)

lemma download_cancelled_network:
  "scheme (metadata_source svc) \<noteq> ''file'' \<Longrightarrow> opt_token ov = Some t \<Longrightarrow>
   isCancellationRequested t \<Longrightarrow>
   download net svc (Some ov) h
     = (Some (Inl (Exception ERR_TOKEN_CANCELED)), svc, h\<lparr>consoleLines := consoleLines h + 1\<rparr>)"
  by (simp add: download_def installToken_cancelled Let_def)

text \<open>
  With a token that is not cancelled, the download of the sample \<open>file:\<close> locator resolves
  with the content and writes the destination.
\<close>

lemma download_file_transfers:
  "fst (download net sampleService
          (Some (withToken \<lparr>isCancellationRequested = False\<rparr>)) sampleHost) = Some (Inr [7, 8, 9])
   \<and> nodes (disk (snd (snd (download net sampleService
          (Some (withToken \<lparr>isCancellationRequested = False\<rparr>)) sampleHost)))) [''tmp'', ''out'']
       = Some (File [7, 8, 9])"
  by (simp add: download_def downloadFromFile_def installToken_def withToken_def
      sampleService_def sampleFileLocator_def sampleHost_def destPathOf_def transferFile_def
      fs_stat_def fs_openWrite_def notWritable_def fs_streamWrite_def called_def)

text \<open>
  Claim C9, as the code has it. A \<open>download()\<close> call whose token is already cancelled rejects
  with TokenCanceled and leaves the service, the disk (its nodes and its record of calls) and
  the list of requests as they were: no file-system call is made and no request is issued. For
  a \<open>file:\<close> locator the host is unchanged altogether, so no destination file is created; the
  network path has printed its metadata to the console before the check. The constructor
  throws TokenCanceled for a token that is already cancelled when it is given a non-empty
  destination as its second argument: it resolves and checks the destination first.
\<close>

theorem cancelled_token_rejects_before_transfer:
  "(\<forall>ov t. overrides = Some ov \<and> opt_token ov = Some t \<and> isCancellationRequested t \<longrightarrow>
        fst (download net svc overrides h) = Some (Inl (Exception ERR_TOKEN_CANCELED))
        \<and> fst (snd (download net svc overrides h)) = svc
        \<and> disk (snd (snd (download net svc overrides h))) = disk h
        \<and> requested (snd (snd (download net svc overrides h))) = requested h
        \<and> (scheme (metadata_source svc) = ''file'' \<longrightarrow> snd (snd (download net svc overrides h)) = h))
   \<and> (\<forall>opts t. destination \<noteq> [] \<and> options = Some opts \<and> opt_token opts = Some t
          \<and> isCancellationRequested t \<longrightarrow>
        newDownloadService resource (Inl destination) options
          = Inl (Exception ERR_TOKEN_CANCELED))"
proof (intro conjI allI impI)
  fix ov t
  assume a: "overrides = Some ov \<and> opt_token ov = Some t \<and> isCancellationRequested t"
  show "fst (download net svc overrides h) = Some (Inl (Exception ERR_TOKEN_CANCELED))"
    "fst (snd (download net svc overrides h)) = svc"
    "disk (snd (snd (download net svc overrides h))) = disk h"
    "requested (snd (snd (download net svc overrides h))) = requested h"
    using a
    by (cases "scheme (metadata_source svc) = ''file''";
        simp add: download_cancelled_file download_cancelled_network)+
  assume "scheme (metadata_source svc) = ''file''"
  with a show "snd (snd (download net svc overrides h)) = h"
    by (simp add: download_cancelled_file)
next
  fix opts t
  assume "destination \<noteq> [] \<and> options = Some opts \<and> opt_token opts = Some t
      \<and> isCancellationRequested t"
  then show "newDownloadService resource (Inl destination) options
      = Inl (Exception ERR_TOKEN_CANCELED)"
    by (simp add: newDownloadService_def cancelled_def)
qed

text \<open>
  The scenario of the specification: the sample \<open>file:\<close> service with a token that is already
  cancelled rejects, and there is still no file at the destination.
\<close>

theorem cancelled_token_rejects_before_transfer_witness:
  "download silentNetwork sampleService (Some (withToken cancelledToken)) sampleHost
     = (Some (Inl (Exception ERR_TOKEN_CANCELED)), sampleService, sampleHost)
   \<and> nodes (disk sampleHost) (metadata_destination sampleService) = None"
proof -
  have tok: "Some (withToken cancelledToken) = Some (withToken cancelledToken)
      \<and> opt_token (withToken cancelledToken) = Some cancelledToken
      \<and> isCancellationRequested cancelledToken"
    by (simp add: withToken_def cancelledToken_def)
  have local: "scheme (metadata_source sampleService) = ''file''"
    by (simp add: sampleService_def sampleFileLocator_def)
  from cancelled_token_rejects_before_transfer
      [of "Some (withToken cancelledToken)" silentNetwork sampleService sampleHost,
        THEN conjunct1, rule_format, OF tok] local
  have "download silentNetwork sampleService (Some (withToken cancelledToken)) sampleHost
     = (Some (Inl (Exception ERR_TOKEN_CANCELED)), sampleService, sampleHost)"
    by (metis prod.collapse)
  then show ?thesis
    by (simp add: sampleHost_def sampleService_def)
qed

text \<open>
  The claim as stated fails in the constructor: with an empty destination and a token that is
  already cancelled it throws InvalidArgument, not TokenCanceled. So it does when the options
  object, cancelled token included, is passed as the second argument: the destination is then
  read from the absent third argument.
\<close>

theorem constructor_checks_destination_first_counterexample:
  "newDownloadService sampleFileLocator (Inl []) (Some (withToken cancelledToken))
     = Inl (Exception ERR_INVALID_ARGUMENT)
   \<and> newDownloadService sampleFileLocator
        (Inr \<lparr>opt_destination = Some [''tmp'', ''out''], opt_token = Some cancelledToken,
              opt_timeout = None\<rparr>) None
     = Inl (Exception ERR_INVALID_ARGUMENT)"
  by (simp add: newDownloadService_def)


end
